theory Spec2Isabelle
  imports Main "HOL-Library.Signed_Division"
begin

section \<open>Shape inference of the neural-network operators (onnx/defs/nn/defs.cc)\<close>

text \<open>
  The file defines five shape-inference functions over an \<open>InferenceContext\<close>:
  \<open>convPoolTypeAndShapeInference\<close> (Conv, AveragePool, MaxPool, LpPool),
  \<open>roiPoolTypeShapeInference\<close> (MaxRoiPool), \<open>convTransposeShapeInference\<close>
  (ConvTranspose), \<open>gloablPoolTypeShapeInference\<close> (the global pools) and the
  inference function of Flatten. Each one mutates the context it is given and either
  returns or throws through \<open>fail_shape_inference\<close>. The model passes the context
  explicitly and returns it together with a status, since an exception does not undo
  what was written before it.

  Integers: the values of dimensions and attributes are \<open>int64_t\<close>. The sums,
  differences and products the two spatial loops compute on them wrap around modulo
  \<open>2^64\<close> (\<open>int64\<close> below), as the compiled code does on a two's complement machine,
  although the language leaves signed overflow undefined. Division is the truncating
  division of C++ (\<open>sdiv\<close>). A division by zero, the division of the least
  \<open>int64_t\<close> by -1, and an access beyond the end of a vector or of a repeated field
  have no behaviour to model and end the run with the status \<open>UndefinedBehaviour\<close>.
  The conversions of sizes and ranks keep the value (a rank minus 2 is taken only where
  the rank is at least 2). The one conversion of an attribute value,
  \<open>static_cast<int>\<close> of the axis of Flatten, is a reduction modulo \<open>2^32\<close>.
\<close>

subsection \<open>Data model\<close>

text \<open>
  Modelled from the spec: \<open>TensorShapeProto::Dimension\<close>, a class generated from
  the protobuf schema, which is not among the sources. A dimension is a known integer or
  unknown: it holds a value, a symbolic name, or nothing (the state of a dimension fresh
  from \<open>add_dim()\<close>). \<open>has_dim_value()\<close> tells the first case from the others, and
  \<open>dim_value()\<close> of a dimension that holds no value is the default of an integer
  field, 0.
\<close>

datatype dimension = DimValue int | DimParam string | DimNotSet

fun has_dim_value :: "dimension \<Rightarrow> bool" where
  "has_dim_value (DimValue v) = True"
| "has_dim_value (DimParam p) = False"
| "has_dim_value DimNotSet = False"

fun dim_value :: "dimension \<Rightarrow> int" where
  "dim_value (DimValue v) = v"
| "dim_value (DimParam p) = 0"
| "dim_value DimNotSet = 0"

text \<open>
  Modelled from the spec: \<open>AttributeProto\<close>, generated as well. An attribute value is
  an integer, a float (its bits), a string, or a list of integers.
\<close>

datatype attribute_proto =
  AttrInt int | AttrFloat nat | AttrString string | AttrInts "int list"

text \<open>
  Modelled from the spec: \<open>TypeProto::Tensor\<close>, generated as well. A tensor type has
  an element type (the code of \<open>TensorProto::DataType\<close>, 0 for UNDEFINED) and a shape,
  absent when \<open>has_shape()\<close> is false.
\<close>

record tensor_type =
  elem_type :: nat
  shape :: "dimension list option"

text \<open>
  Modelled from the spec: \<open>InferenceContext\<close>, declared in shape\_inference.h, which
  is not among the sources. The context of one node exposes its attribute table and the
  types of its inputs (\<open>None\<close> where the input has no tensor type) and holds the type
  slot of each output; only that of output 0 is modelled, the one the functions of this
  file write.
\<close>

record inference_context =
  attributes :: "(string \<times> attribute_proto) list"
  input_types :: "tensor_type option list"
  output_type :: tensor_type

datatype status = Returned | InferenceError string | UndefinedBehaviour

text \<open>
  The result of an \<open>int64_t\<close> operation whose mathematical value is \<open>v\<close>: the value
  modulo \<open>2^64\<close>, read as a signed 64-bit integer.
\<close>

definition int64 :: "int \<Rightarrow> int" where
  "int64 v = (v + 9223372036854775808) mod 18446744073709551616 - 9223372036854775808"

subsection \<open>The helpers of shape\_inference.h\<close>

text \<open>
  Modelled from the spec: \<open>InferenceContext::getAttribute\<close>. The attributes are a
  mapping from attribute name to value; the result is the entry of the name, if there is
  one (a null pointer otherwise).
\<close>

definition getAttributeProto :: "inference_context \<Rightarrow> string \<Rightarrow> attribute_proto option" where
  "getAttributeProto ctx name = map_of (attributes ctx) name"

text \<open>
  Modelled from the spec: \<open>getAttribute(ctx, name, defaultValue)\<close> of
  shape\_inference.h, the integer attribute with its declared default applied when absent.
\<close>

definition getAttribute :: "inference_context \<Rightarrow> string \<Rightarrow> int \<Rightarrow> int" where
  "getAttribute ctx name defaultValue =
     (case getAttributeProto ctx name of
        Some (AttrInt v) \<Rightarrow> v
      | _ \<Rightarrow> defaultValue)"

text \<open>
  Modelled from the spec: \<open>getRepeatedAttribute(ctx, name, values)\<close> of
  shape\_inference.h. \<open>None\<close> stands for the result false (attribute absent, the vector
  untouched), \<open>Some vs\<close> for true with the list of integers of the attribute, which is
  empty for an attribute of another kind.
\<close>

definition getRepeatedAttribute :: "inference_context \<Rightarrow> string \<Rightarrow> int list option" where
  "getRepeatedAttribute ctx name =
     (case getAttributeProto ctx name of
        None \<Rightarrow> None
      | Some (AttrInts vs) \<Rightarrow> Some vs
      | Some _ \<Rightarrow> Some [])"

text \<open>
  Modelled from the spec: \<open>InferenceContext::getInputType\<close>, the type of input \<open>n\<close>,
  \<open>None\<close> where the node has no such input or the input has no tensor type.
\<close>

definition getInputType :: "inference_context \<Rightarrow> nat \<Rightarrow> tensor_type option" where
  "getInputType ctx n = (if n < length (input_types ctx) then input_types ctx ! n else None)"

text \<open>
  Modelled from the spec: \<open>hasInputShape(ctx, n)\<close> of shape\_inference.h: input \<open>n\<close>
  exists and has a tensor type with a shape.
\<close>

definition hasInputShape :: "inference_context \<Rightarrow> nat \<Rightarrow> bool" where
  "hasInputShape ctx n =
     (case getInputType ctx n of None \<Rightarrow> False | Some t \<Rightarrow> shape t \<noteq> None)"

text \<open>
  Modelled from the spec: \<open>hasNInputShapes(ctx, n)\<close> of shape\_inference.h: each of
  the first \<open>n\<close> inputs has a shape.
\<close>

definition hasNInputShapes :: "inference_context \<Rightarrow> nat \<Rightarrow> bool" where
  "hasNInputShapes ctx n = list_all (hasInputShape ctx) [0..<n]"

text \<open>
  Modelled from the spec: \<open>getInputShape(ctx, n)\<close> of shape\_inference.h, which the
  source also spells \<open>ctx.getInputType(n)->tensor_type().shape()\<close>: the dimensions of
  input \<open>n\<close>. The functions read it only after \<open>hasNInputShapes\<close> has answered
  true; the accessors of an unset message return the empty default.
\<close>

definition getInputShape :: "inference_context \<Rightarrow> nat \<Rightarrow> dimension list" where
  "getInputShape ctx n =
     (case getInputType ctx n of
        None \<Rightarrow> []
      | Some t \<Rightarrow> (case shape t of None \<Rightarrow> [] | Some ds \<Rightarrow> ds))"

text \<open>
  Modelled from the spec: \<open>propagateElemTypeFromInputToOutput\<close> of shape\_inference.h,
  which copies the element type of input \<open>inputIndex\<close> to the output; with no such
  input type there is nothing to copy. Only output 0 is modelled.
\<close>

definition propagateElemTypeFromInputToOutput ::
  "inference_context \<Rightarrow> nat \<Rightarrow> nat \<Rightarrow> inference_context" where
  "propagateElemTypeFromInputToOutput ctx inputIndex outputIndex =
     (case getInputType ctx inputIndex of
        None \<Rightarrow> ctx
      | Some t \<Rightarrow> ctx\<lparr>output_type := (output_type ctx)\<lparr>elem_type := elem_type t\<rparr>\<rparr>)"

text \<open>
  Modelled from the spec: the generated accessors behind
  \<open>ctx.getOutputType(0)->mutable_tensor_type()->mutable_shape()\<close> and \<open>add_dim()\<close>.
  \<open>output_dims\<close> is the list of the dimensions already in the output shape (none when
  the shape was absent); \<open>set_output_dims\<close> writes the extended list, which makes the
  shape present. Each \<open>add_dim()\<close> of the source is an element appended to that list.
\<close>

definition output_dims :: "inference_context \<Rightarrow> dimension list" where
  "output_dims ctx = (case shape (output_type ctx) of None \<Rightarrow> [] | Some ds \<Rightarrow> ds)"

definition set_output_dims :: "inference_context \<Rightarrow> dimension list \<Rightarrow> inference_context" where
  "set_output_dims ctx ds = ctx\<lparr>output_type := (output_type ctx)\<lparr>shape := Some ds\<rparr>\<rparr>"

subsection \<open>Convolution and pooling: convPoolTypeAndShapeInference\<close>

text \<open>
  The loop that reads the kernel shape from the second input:
  \<^verbatim>\<open>for (int i = 2; i < second_input_shape.dim_size(); ++i)\<close>. It is run on the
  dimensions from index 2 on; \<open>None\<close> is the \<open>return\<close> at a dimension without value.
\<close>

fun kernel_shape_from_dims :: "dimension list \<Rightarrow> int list \<Rightarrow> int list option" where
  "kernel_shape_from_dims [] kernel_shape = Some kernel_shape"
| "kernel_shape_from_dims (d # ds) kernel_shape =
     (if \<not> has_dim_value d then None
      else kernel_shape_from_dims ds (kernel_shape @ [dim_value d]))"

text \<open>
  The loop over the spatial axes, \<^verbatim>\<open>for (int i = 0; i < kernel_shape_size; ++i)\<close>,
  on the list of the indices still to visit and the output dimensions written so far.
  Every iteration appends a dimension; it stays without value when the input dimension
  has none. Each \<open>+=\<close>, \<open>-\<close>, \<open>*\<close> and \<open>+\<close> of the source is one \<open>int64\<close>.
\<close>

fun convPool_spatial_loop ::
  "dimension list \<Rightarrow> int list \<Rightarrow> int list \<Rightarrow> int list \<Rightarrow> int list \<Rightarrow>
   nat list \<Rightarrow> dimension list \<Rightarrow> status \<times> dimension list" where
  "convPool_spatial_loop input_shape pads kernel_shape dilations strides [] out =
     (Returned, out)"
| "convPool_spatial_loop input_shape pads kernel_shape dilations strides (i # rest) out =
     (if \<not> 2 + i < length input_shape then (UndefinedBehaviour, out @ [DimNotSet])
      else if \<not> has_dim_value (input_shape ! (2 + i)) then
        convPool_spatial_loop input_shape pads kernel_shape dilations strides rest
          (out @ [DimNotSet])
      else if \<not> (i + length kernel_shape < length pads \<and> i < length kernel_shape \<and>
                 i < length dilations \<and> i < length strides)
        then (UndefinedBehaviour, out @ [DimNotSet])
      else
        let effective_input_size = dim_value (input_shape ! (2 + i));
            effective_input_size = int64 (effective_input_size + pads ! i);
            effective_input_size =
              int64 (effective_input_size + pads ! (i + length kernel_shape));
            effective_kernel_size = kernel_shape ! i;
            effective_kernel_size =
              int64 (int64 (int64 (effective_kernel_size - 1) * dilations ! i) + 1);
            difference = int64 (effective_input_size - effective_kernel_size)
        in if strides ! i = 0 \<or> (difference = - 9223372036854775808 \<and> strides ! i = - 1)
           then (UndefinedBehaviour, out @ [DimNotSet])
           else
             let strided_kernel_positions = difference sdiv strides ! i
             in convPool_spatial_loop input_shape pads kernel_shape dilations strides rest
                  (out @ [DimValue (int64 (1 + strided_kernel_positions))]))"

definition convPoolTypeAndShapeInference ::
  "inference_context \<Rightarrow> bool \<Rightarrow> bool \<Rightarrow> status \<times> inference_context" where
  "convPoolTypeAndShapeInference ctx0 use_dilation require_kernel_shape =
    (let ctx = propagateElemTypeFromInputToOutput ctx0 0 0 in
     if \<not> hasNInputShapes ctx 1 then (Returned, ctx)
     else if \<not> require_kernel_shape \<and> \<not> hasNInputShapes ctx 2 then (Returned, ctx)
     else if getAttributeProto ctx ''auto_pad'' \<noteq> None then (Returned, ctx)
     else
       let input_shape = getInputShape ctx 0 in
       if length input_shape < 2
       then (InferenceError ''Input tensor must have atleast 2 dimensions'', ctx)
       else
         let n_input_dims = length input_shape - 2 in
         (case (if use_dilation
                then (case getRepeatedAttribute ctx ''dilations'' of
                        Some ds \<Rightarrow>
                          (if length ds \<noteq> n_input_dims
                           then Inl (InferenceError ''Attribute dilations has incorrect size'')
                           else Inr ds)
                      | None \<Rightarrow> Inr (replicate n_input_dims 1))
                else Inr (replicate n_input_dims 1)) of
            Inl err \<Rightarrow> (err, ctx)
          | Inr dilations \<Rightarrow>
         (if getAttribute ctx ''group'' 1 \<noteq> 1 then (Returned, ctx)
          else
         (case (case getRepeatedAttribute ctx ''pads'' of
                  Some ps \<Rightarrow>
                    (if length ps \<noteq> n_input_dims * 2
                     then Inl (InferenceError ''Attribute pads has incorrect size'')
                     else Inr ps)
                | None \<Rightarrow> Inr (replicate (n_input_dims * 2) 0)) of
            Inl err \<Rightarrow> (err, ctx)
          | Inr pads \<Rightarrow>
         (case (case getRepeatedAttribute ctx ''strides'' of
                  Some ss \<Rightarrow>
                    (if length ss \<noteq> n_input_dims
                     then Inl (InferenceError ''Attribute strides has incorrect size'')
                     else Inr ss)
                | None \<Rightarrow> Inr (replicate n_input_dims 1)) of
            Inl err \<Rightarrow> (err, ctx)
          | Inr strides \<Rightarrow>
         (case (case getRepeatedAttribute ctx ''kernel_shape'' of
                  Some ks \<Rightarrow>
                    (if length ks \<noteq> n_input_dims
                     then Inl (InferenceError ''Attribute kernel_shape has incorrect size'')
                     else Inr ks)
                | None \<Rightarrow>
                    (if require_kernel_shape
                     then Inl (InferenceError ''Attribute kernel_shape must be specified'')
                     else (case kernel_shape_from_dims (drop 2 (getInputShape ctx 1)) [] of
                             None \<Rightarrow> Inl Returned
                           | Some ks \<Rightarrow> Inr ks))) of
            Inl st \<Rightarrow> (st, ctx)
          | Inr kernel_shape \<Rightarrow>
         (let output_shape = output_dims ctx @ [input_shape ! 0] in
          if \<not> require_kernel_shape \<and> length (getInputShape ctx 1) < 1
          then (InferenceError ''Second input tensor has wrong dimension'',
                set_output_dims ctx output_shape)
          else
            let output_shape =
                  output_shape @
                  [if require_kernel_shape then input_shape ! 1 else getInputShape ctx 1 ! 0];
                r = convPool_spatial_loop input_shape pads kernel_shape dilations strides
                      [0..<length kernel_shape] output_shape
            in (fst r, set_output_dims ctx (snd r)))))))))"

text \<open>The four operators and the flags their schemas pass.\<close>

definition AveragePool_inference :: "inference_context \<Rightarrow> status \<times> inference_context" where
  "AveragePool_inference ctx = convPoolTypeAndShapeInference ctx False True"

definition MaxPool_inference :: "inference_context \<Rightarrow> status \<times> inference_context" where
  "MaxPool_inference ctx = convPoolTypeAndShapeInference ctx False True"

definition LpPool_inference :: "inference_context \<Rightarrow> status \<times> inference_context" where
  "LpPool_inference ctx = convPoolTypeAndShapeInference ctx False True"

definition Conv_inference :: "inference_context \<Rightarrow> status \<times> inference_context" where
  "Conv_inference ctx = convPoolTypeAndShapeInference ctx True False"

subsection \<open>Region-of-interest pooling: roiPoolTypeShapeInference\<close>

definition roiPoolTypeShapeInference :: "inference_context \<Rightarrow> status \<times> inference_context" where
  "roiPoolTypeShapeInference ctx0 =
    (let ctx = propagateElemTypeFromInputToOutput ctx0 0 0 in
     if \<not> hasNInputShapes ctx 2 then (Returned, ctx)
     else
       let input_shape = getInputShape ctx 0;
           rios_shape = getInputShape ctx 1
       in
       if length input_shape < 2
       then (InferenceError ''Input tensor must have at least 2 dimensions'', ctx)
       else if length rios_shape \<noteq> 2
       then (InferenceError ''RoIs tensor must have 2 dimensions'', ctx)
       else
         let n_input_dims = length input_shape - 2 in
         case getRepeatedAttribute ctx ''pooled_shape'' of
           None \<Rightarrow> (InferenceError ''Attribute pooled_shape must be specified'', ctx)
         | Some pooled_shape \<Rightarrow>
             if length pooled_shape \<noteq> n_input_dims
             then (InferenceError ''Attribute pooled_shape has incorrect length'', ctx)
             else
               let output_shape = output_dims ctx @ [rios_shape ! 0, input_shape ! 1] in
               if \<not> 0 < length pooled_shape
               then (UndefinedBehaviour, set_output_dims ctx output_shape)
               else
                 let output_shape = output_shape @ [DimValue (pooled_shape ! 0)] in
                 if \<not> 1 < length pooled_shape
                 then (UndefinedBehaviour, set_output_dims ctx output_shape)
                 else (Returned,
                       set_output_dims ctx (output_shape @ [DimValue (pooled_shape ! 1)])))"

definition MaxRoiPool_inference :: "inference_context \<Rightarrow> status \<times> inference_context" where
  "MaxRoiPool_inference ctx = roiPoolTypeShapeInference ctx"

subsection \<open>Transposed convolution: convTransposeShapeInference\<close>

text \<open>
  The loop of the explicit \<open>output_shape\<close> mode. It returns at the first axis whose
  attribute value is below \<open>dim_value()\<close> of the input dimension, and appends the
  attribute value otherwise.
\<close>

fun convTranspose_output_shape_loop ::
  "dimension list \<Rightarrow> int list \<Rightarrow> nat list \<Rightarrow> dimension list \<Rightarrow> status \<times> dimension list" where
  "convTranspose_output_shape_loop input_shape output_shape [] out = (Returned, out)"
| "convTranspose_output_shape_loop input_shape output_shape (i # rest) out =
     (if \<not> (i < length output_shape \<and> i + 2 < length input_shape)
      then (UndefinedBehaviour, out)
      else if output_shape ! i < dim_value (input_shape ! (i + 2)) then (Returned, out)
      else convTranspose_output_shape_loop input_shape output_shape rest
             (out @ [DimValue (output_shape ! i)]))"

text \<open>
  The loop of the other mode, \<^verbatim>\<open>for (int i = 0; i < kernel_shape_size; ++i)\<close>,
  with the \<open>int64_t\<close> arithmetic of \<open>newdim_value\<close> wrapping around at every step.
\<close>

fun convTranspose_spatial_loop ::
  "dimension list \<Rightarrow> int list \<Rightarrow> int list \<Rightarrow> int list \<Rightarrow> int list \<Rightarrow>
   nat list \<Rightarrow> dimension list \<Rightarrow> status \<times> dimension list" where
  "convTranspose_spatial_loop input_shape pads kernel_shape strides output_padding [] out =
     (Returned, out)"
| "convTranspose_spatial_loop input_shape pads kernel_shape strides output_padding
     (i # rest) out =
     (if \<not> 2 + i < length input_shape then (UndefinedBehaviour, out @ [DimNotSet])
      else if \<not> has_dim_value (input_shape ! (2 + i)) then
        convTranspose_spatial_loop input_shape pads kernel_shape strides output_padding rest
          (out @ [DimNotSet])
      else if \<not> (i + length kernel_shape < length pads \<and> i < length kernel_shape \<and>
                 i < length strides \<and> i < length output_padding)
        then (UndefinedBehaviour, out @ [DimNotSet])
      else
        let newdim_value =
              int64 (strides ! i * int64 (dim_value (input_shape ! (2 + i)) - 1));
            newdim_value = int64 (newdim_value + int64 (output_padding ! i + kernel_shape ! i));
            newdim_value = int64 (newdim_value - pads ! i);
            newdim_value = int64 (newdim_value - pads ! (i + length kernel_shape))
        in convTranspose_spatial_loop input_shape pads kernel_shape strides output_padding rest
             (out @ [DimValue newdim_value]))"

definition convTransposeShapeInference :: "inference_context \<Rightarrow> status \<times> inference_context" where
  "convTransposeShapeInference ctx0 =
    (let ctx = propagateElemTypeFromInputToOutput ctx0 0 0 in
     if \<not> hasNInputShapes ctx 2 then (Returned, ctx)
     else if getAttributeProto ctx ''auto_pad'' \<noteq> None then (Returned, ctx)
     else
       let input_shape = getInputShape ctx 0 in
       if length input_shape < 2 then (Returned, ctx)
       else
         let n_input_dims = length input_shape - 2 in
         if getAttribute ctx ''group'' 1 \<noteq> 1 then (Returned, ctx)
         else if getRepeatedAttribute ctx ''dilations'' \<noteq> None then (Returned, ctx)
         else
         (case (case getRepeatedAttribute ctx ''pads'' of
                  Some ps \<Rightarrow> (if length ps \<noteq> n_input_dims * 2 then None else Some ps)
                | None \<Rightarrow> Some (replicate (n_input_dims * 2) 0)) of
            None \<Rightarrow> (Returned, ctx)
          | Some pads \<Rightarrow>
         (case (case getRepeatedAttribute ctx ''strides'' of
                  Some ss \<Rightarrow> (if length ss \<noteq> n_input_dims then None else Some ss)
                | None \<Rightarrow> Some (replicate n_input_dims 1)) of
            None \<Rightarrow> (Returned, ctx)
          | Some strides \<Rightarrow>
         (case (case getRepeatedAttribute ctx ''kernel_shape'' of
                  Some ks \<Rightarrow> (if length ks \<noteq> n_input_dims then None else Some ks)
                | None \<Rightarrow> kernel_shape_from_dims (drop 2 (getInputShape ctx 1)) []) of
            None \<Rightarrow> (Returned, ctx)
          | Some kernel_shape \<Rightarrow>
         (case (case getRepeatedAttribute ctx ''output_shape'' of
                  Some os \<Rightarrow> (if length os \<noteq> n_input_dims then None else Some os)
                | None \<Rightarrow> Some []) of
            None \<Rightarrow> (Returned, ctx)
          | Some output_shape \<Rightarrow>
         (case (case getRepeatedAttribute ctx ''output_padding'' of
                  Some op \<Rightarrow> (if length op \<noteq> n_input_dims then None else Some op)
                | None \<Rightarrow> Some (replicate n_input_dims 0)) of
            None \<Rightarrow> (Returned, ctx)
          | Some output_padding \<Rightarrow>
         (let final_output_shape = output_dims ctx @ [input_shape ! 0] in
          if \<not> 1 < length (getInputShape ctx 1)
          then (UndefinedBehaviour, set_output_dims ctx final_output_shape)
          else
            let final_output_shape = final_output_shape @ [getInputShape ctx 1 ! 1] in
            if 0 < length output_shape
            then
              let r = convTranspose_output_shape_loop input_shape output_shape
                        [0..<length output_shape] final_output_shape
              in (fst r, set_output_dims ctx (snd r))
            else
              let r = convTranspose_spatial_loop input_shape pads kernel_shape strides
                        output_padding [0..<length kernel_shape] final_output_shape
              in (fst r, set_output_dims ctx (snd r)))))))))"

definition ConvTranspose_inference :: "inference_context \<Rightarrow> status \<times> inference_context" where
  "ConvTranspose_inference ctx = convTransposeShapeInference ctx"

subsection \<open>Global pooling: gloablPoolTypeShapeInference\<close>

definition gloablPoolTypeShapeInference :: "inference_context \<Rightarrow> status \<times> inference_context" where
  "gloablPoolTypeShapeInference ctx0 =
    (let ctx = propagateElemTypeFromInputToOutput ctx0 0 0 in
     if \<not> hasNInputShapes ctx 1 then (Returned, ctx)
     else
       let input_shape = getInputShape ctx 0 in
       if length input_shape < 2 then (Returned, ctx)
       else
         let n_input_dims = length input_shape - 2;
             output_shape = output_dims ctx @ [input_shape ! 0, input_shape ! 1]
         in (Returned, set_output_dims ctx (output_shape @ replicate n_input_dims (DimValue 1))))"

definition GlobalAveragePool_inference :: "inference_context \<Rightarrow> status \<times> inference_context" where
  "GlobalAveragePool_inference ctx = gloablPoolTypeShapeInference ctx"

definition GlobalMaxPool_inference :: "inference_context \<Rightarrow> status \<times> inference_context" where
  "GlobalMaxPool_inference ctx = gloablPoolTypeShapeInference ctx"

definition GlobalLpPool_inference :: "inference_context \<Rightarrow> status \<times> inference_context" where
  "GlobalLpPool_inference ctx = gloablPoolTypeShapeInference ctx"

subsection \<open>Flatten\<close>

text \<open>
  Modelled from the spec: \<open>multiplyDims(shape, from, upto_exclusive)\<close> of
  shape\_inference.h, the product of the dimensions from \<open>from\<close> up to
  \<open>upto_exclusive\<close>. The product of two known dimensions is known; if a contributing
  dimension is unknown the product is unknown. The empty product is 1.
\<close>

fun multiply_dimension :: "dimension \<Rightarrow> dimension \<Rightarrow> dimension" where
  "multiply_dimension (DimValue a) (DimValue b) = DimValue (a * b)"
| "multiply_dimension d1 d2 = DimNotSet"

text \<open>
  Modelled from the spec: \<open>multiplyDims\<close> itself, the product over the dimensions
  with the indices \<open>from, ..., upto_exclusive - 1\<close>.
\<close>

definition multiplyDims :: "dimension list \<Rightarrow> nat \<Rightarrow> nat \<Rightarrow> dimension" where
  "multiplyDims sh from upto_exclusive =
     foldl multiply_dimension (DimValue 1) (take (upto_exclusive - from) (drop from sh))"

text \<open>
  Modelled from the spec: \<open>updateOutputShape(ctx, outputIndex, dims)\<close> of
  shape\_inference.h, which writes the given dimensions to the shape of the output.
  As everywhere in this file they are added to the shape the output slot has.
\<close>

definition updateOutputShape ::
  "inference_context \<Rightarrow> nat \<Rightarrow> dimension list \<Rightarrow> inference_context" where
  "updateOutputShape ctx outputIndex dims = set_output_dims ctx (output_dims ctx @ dims)"

text \<open>
  \<open>static_cast<int>\<close> of an \<open>int64_t\<close>: the value modulo \<open>2^32\<close>, read as a signed
  32-bit integer.
\<close>

definition static_cast_int :: "int \<Rightarrow> int" where
  "static_cast_int v = (v + 2147483648) mod 4294967296 - 2147483648"

definition Flatten_inference :: "inference_context \<Rightarrow> status \<times> inference_context" where
  "Flatten_inference ctx0 =
    (let ctx = propagateElemTypeFromInputToOutput ctx0 0 0 in
     if \<not> hasInputShape ctx 0 then (Returned, ctx)
     else
       let input_shape = getInputShape ctx 0;
           rank = int (length input_shape);
           axis = static_cast_int (getAttribute ctx ''axis'' 1)
       in
       if axis > rank \<or> axis < 0
       then (InferenceError ''Invalid value for attribute axis'', ctx)
       else (Returned,
             updateOutputShape ctx 0
               [multiplyDims input_shape 0 (nat axis),
                multiplyDims input_shape (nat axis) (nat rank)]))"

subsection \<open>The formulas of the specification\<close>

text \<open>
  The sliding-window formula as the specification words it, with the floor division of
  the integers (\<open>div\<close>), to be compared with what the loops above compute.
\<close>

definition spec_effective_kernel :: "int \<Rightarrow> int \<Rightarrow> int" where
  "spec_effective_kernel kernel_size dilation = (kernel_size - 1) * dilation + 1"

definition spec_output_dim :: "int \<Rightarrow> int \<Rightarrow> int \<Rightarrow> int \<Rightarrow> int \<Rightarrow> int \<Rightarrow> int" where
  "spec_output_dim input_dim pad_before pad_after kernel_size dilation stride =
     (input_dim + pad_before + pad_after - spec_effective_kernel kernel_size dilation) div stride + 1"

text \<open>
  The range of \<open>int64_t\<close>, and the condition that no step of the arithmetic of one
  axis of the sliding-window loop leaves it.
\<close>

definition in_int64 :: "int \<Rightarrow> bool" where
  "in_int64 v = (- 9223372036854775808 \<le> v \<and> v < 9223372036854775808)"

definition convPool_axis_in_range :: "int \<Rightarrow> int \<Rightarrow> int \<Rightarrow> int \<Rightarrow> int \<Rightarrow> int \<Rightarrow> bool" where
  "convPool_axis_in_range input_dim pad_before pad_after kernel_size dilation stride =
     (in_int64 (input_dim + pad_before) \<and>
      in_int64 (input_dim + pad_before + pad_after) \<and>
      in_int64 (kernel_size - 1) \<and>
      in_int64 ((kernel_size - 1) * dilation) \<and>
      in_int64 (spec_effective_kernel kernel_size dilation) \<and>
      in_int64 (input_dim + pad_before + pad_after - spec_effective_kernel kernel_size dilation) \<and>
      in_int64 (1 + (input_dim + pad_before + pad_after
                     - spec_effective_kernel kernel_size dilation) sdiv stride))"

text \<open>The value a list attribute resolves to: the attribute if present, else the default.\<close>

definition attribute_or_default :: "inference_context \<Rightarrow> string \<Rightarrow> int list \<Rightarrow> int list" where
  "attribute_or_default ctx name dflt =
     (case getRepeatedAttribute ctx name of None \<Rightarrow> dflt | Some vs \<Rightarrow> vs)"

text \<open>
  The kernel shape a node resolves to: the attribute, or else, for the operators that
  take it from the second input, the values of that input's dimensions from index 2 on.
\<close>

definition resolved_kernel_shape :: "inference_context \<Rightarrow> bool \<Rightarrow> int list option" where
  "resolved_kernel_shape ctx require_kernel_shape =
     (case getRepeatedAttribute ctx ''kernel_shape'' of
        Some ks \<Rightarrow> Some ks
      | None \<Rightarrow>
          if require_kernel_shape then None
          else kernel_shape_from_dims (drop 2 (getInputShape ctx 1)) [])"

text \<open>The formula of the transposed convolution as the specification words it.\<close>

definition spec_convTranspose_output_dim :: "int \<Rightarrow> int \<Rightarrow> int \<Rightarrow> int \<Rightarrow> int \<Rightarrow> int \<Rightarrow> int" where
  "spec_convTranspose_output_dim stride input_dim output_padding kernel_size pad_before pad_after =
     stride * (input_dim - 1) + output_padding + kernel_size - pad_before - pad_after"

text \<open>The same condition for one axis of the loop of the transposed convolution.\<close>

definition convTranspose_axis_in_range :: "int \<Rightarrow> int \<Rightarrow> int \<Rightarrow> int \<Rightarrow> int \<Rightarrow> int \<Rightarrow> bool" where
  "convTranspose_axis_in_range stride input_dim output_padding kernel_size pad_before pad_after =
     (in_int64 (input_dim - 1) \<and>
      in_int64 (stride * (input_dim - 1)) \<and>
      in_int64 (output_padding + kernel_size) \<and>
      in_int64 (stride * (input_dim - 1) + (output_padding + kernel_size)) \<and>
      in_int64 (stride * (input_dim - 1) + (output_padding + kernel_size) - pad_before) \<and>
      in_int64 (spec_convTranspose_output_dim stride input_dim output_padding kernel_size
                  pad_before pad_after))"

text \<open>
  The values of an explicit \<open>output_shape\<close> that pass the validation: the longest
  prefix of the attribute whose values are not below \<open>dim_value()\<close> of the input
  dimension of their axis.
\<close>

definition accepted_output_shape :: "dimension list \<Rightarrow> int list \<Rightarrow> int list" where
  "accepted_output_shape input_shape output_shape =
     map fst (takeWhile (\<lambda>(v, d). dim_value d \<le> v) (zip output_shape (drop 2 input_shape)))"

text \<open>
  The spatial dimensions a run has written: what the output shape holds after the
  dimensions it had before and the batch and channel dimensions.
\<close>

definition written_spatial_dims :: "inference_context \<Rightarrow> inference_context \<Rightarrow> dimension list" where
  "written_spatial_dims ctx ctx' = drop (length (output_dims ctx) + 2) (output_dims ctx')"

text \<open>The number of spatial axes of the first input.\<close>

definition spatial_rank :: "inference_context \<Rightarrow> nat" where
  "spatial_rank ctx = length (getInputShape ctx 0) - 2"

text \<open>A list attribute that is present with a length other than the expected one.\<close>

definition length_mismatch :: "inference_context \<Rightarrow> string \<Rightarrow> nat \<Rightarrow> bool" where
  "length_mismatch ctx name expected =
     (case getRepeatedAttribute ctx name of None \<Rightarrow> False | Some vs \<Rightarrow> length vs \<noteq> expected)"

definition is_inference_error :: "status \<Rightarrow> bool" where
  "is_inference_error st = (case st of InferenceError msg \<Rightarrow> True | _ \<Rightarrow> False)"

text \<open>
  The conditions under which ConvTranspose gets as far as writing an output shape, for
  a first input with \<open>n\<close> spatial axes: both input shapes known, the second of rank at
  least 2, no auto\_pad, group 1, no dilations, every list attribute absent or of the
  right length, and a kernel shape resolved from the attribute or the second input.
\<close>

definition convTranspose_preconditions :: "inference_context \<Rightarrow> nat \<Rightarrow> bool" where
  "convTranspose_preconditions ctx n =
     (hasNInputShapes ctx 2 \<and> getAttributeProto ctx ''auto_pad'' = None \<and>
      length (getInputShape ctx 0) = n + 2 \<and> 1 < length (getInputShape ctx 1) \<and>
      getAttribute ctx ''group'' 1 = 1 \<and> getRepeatedAttribute ctx ''dilations'' = None \<and>
      \<not> length_mismatch ctx ''pads'' (2 * n) \<and> \<not> length_mismatch ctx ''strides'' n \<and>
      \<not> length_mismatch ctx ''kernel_shape'' n \<and> \<not> length_mismatch ctx ''output_shape'' n \<and>
      \<not> length_mismatch ctx ''output_padding'' n \<and>
      resolved_kernel_shape ctx False \<noteq> None)"

text \<open>
  The product of a list of dimensions as the specification words it: known when every
  factor is known, unknown otherwise.
\<close>

definition spec_product :: "dimension list \<Rightarrow> dimension" where
  "spec_product ds =
     (if list_all has_dim_value ds then DimValue (prod_list (map dim_value ds)) else DimNotSet)"

subsection \<open>Example nodes\<close>

definition ex_tensor :: "dimension list \<Rightarrow> tensor_type option" where
  "ex_tensor sh = Some \<lparr>elem_type = 1, shape = Some sh\<rparr>"

definition ex_node ::
  "(string \<times> attribute_proto) list \<Rightarrow> tensor_type option list \<Rightarrow> inference_context" where
  "ex_node attrs ins =
     \<lparr>attributes = attrs, input_types = ins, output_type = \<lparr>elem_type = 0, shape = None\<rparr>\<rparr>"

text \<open>Max pooling with kernel 2, stride 2 and no padding on a 4x4 image.\<close>

definition ex_pool_4x4 :: inference_context where
  "ex_pool_4x4 =
     ex_node [(''kernel_shape'', AttrInts [2, 2]), (''strides'', AttrInts [2, 2])]
       [ex_tensor [DimValue 1, DimValue 3, DimValue 4, DimValue 4]]"

text \<open>Max pooling with kernel 4 and stride 2 on a single spatial position.\<close>

definition ex_pool_kernel_too_large :: inference_context where
  "ex_pool_kernel_too_large =
     ex_node [(''kernel_shape'', AttrInts [4]), (''strides'', AttrInts [2])]
       [ex_tensor [DimValue 1, DimValue 3, DimValue 1]]"

text \<open>
  Max pooling with kernel 1 and a pad of 1 on a spatial dimension that is the greatest
  \<open>int64_t\<close>.
\<close>

definition ex_pool_overflow :: inference_context where
  "ex_pool_overflow =
     ex_node [(''kernel_shape'', AttrInts [1]), (''pads'', AttrInts [1, 0])]
       [ex_tensor [DimValue 1, DimValue 3, DimValue 9223372036854775807]]"

text \<open>A convolution with two groups.\<close>

definition ex_conv_two_groups :: inference_context where
  "ex_conv_two_groups =
     ex_node [(''group'', AttrInt 2)]
       [ex_tensor [DimValue 1, DimValue 4, DimValue 5, DimValue 5],
        ex_tensor [DimValue 8, DimValue 2, DimValue 3, DimValue 3]]"

text \<open>Global pooling of an image whose batch size, height and width are not known.\<close>

definition ex_global_pool :: inference_context where
  "ex_global_pool =
     ex_node [] [ex_tensor [DimParam ''N'', DimValue 3, DimParam ''H'', DimNotSet]]"

text \<open>
  Transposed convolutions of a 4x4 image with a 3x3 kernel: with strides, pads and
  output padding; with the legacy auto\_pad; and with an explicit \<open>output_shape\<close>
  that is large enough, and one that is too small at the second axis.
\<close>

definition ex_conv_transpose :: inference_context where
  "ex_conv_transpose =
     ex_node [(''strides'', AttrInts [2, 2]), (''pads'', AttrInts [1, 1, 1, 1]),
              (''output_padding'', AttrInts [1, 1])]
       [ex_tensor [DimValue 1, DimValue 3, DimValue 4, DimValue 4],
        ex_tensor [DimValue 3, DimValue 8, DimValue 3, DimValue 3]]"

definition ex_conv_transpose_auto_pad :: inference_context where
  "ex_conv_transpose_auto_pad =
     ex_node [(''auto_pad'', AttrString ''SAME_UPPER'')]
       [ex_tensor [DimValue 1, DimValue 3, DimValue 4, DimValue 4],
        ex_tensor [DimValue 3, DimValue 8, DimValue 3, DimValue 3]]"



text \<open>
  A transposed convolution of a 4x4 image whose weight tensor has a single kernel
  dimension, and one of a signal of length 5 with the stride \<open>2^62\<close>.
\<close>

definition ex_conv_transpose_short_kernel :: inference_context where
  "ex_conv_transpose_short_kernel =
     ex_node [(''pads'', AttrInts [0, 1, 2, 3])]
       [ex_tensor [DimValue 1, DimValue 3, DimValue 4, DimValue 4],
        ex_tensor [DimValue 3, DimValue 8, DimValue 3]]"

definition ex_conv_transpose_overflow :: inference_context where
  "ex_conv_transpose_overflow =
     ex_node [(''strides'', AttrInts [4611686018427387904])]
       [ex_tensor [DimValue 1, DimValue 3, DimValue 5],
        ex_tensor [DimValue 3, DimValue 8, DimValue 3]]"

text \<open>
  Transposed convolutions of a signal whose length is symbolic, with an explicit
  \<open>output_shape\<close> of 7 and of -1.
\<close>

definition ex_conv_transpose_unknown_dim :: inference_context where
  "ex_conv_transpose_unknown_dim =
     ex_node [(''output_shape'', AttrInts [7])]
       [ex_tensor [DimValue 1, DimValue 3, DimParam ''L''],
        ex_tensor [DimValue 3, DimValue 8, DimValue 3]]"

definition ex_conv_transpose_negative_output_shape :: inference_context where
  "ex_conv_transpose_negative_output_shape =
     ex_node [(''output_shape'', AttrInts [- 1])]
       [ex_tensor [DimValue 1, DimValue 3, DimParam ''L''],
        ex_tensor [DimValue 3, DimValue 8, DimValue 3]]"

text \<open>
  Nodes with a malformed attribute: a pooling and a transposed convolution of a 4x4
  image with a pads attribute of 3 entries, and a convolution with two groups whose
  dilations attribute has one entry.
\<close>

definition ex_pool_bad_pads :: inference_context where
  "ex_pool_bad_pads =
     ex_node [(''kernel_shape'', AttrInts [2, 2]), (''pads'', AttrInts [0, 0, 0])]
       [ex_tensor [DimValue 1, DimValue 3, DimValue 4, DimValue 4]]"

definition ex_conv_transpose_bad_pads :: inference_context where
  "ex_conv_transpose_bad_pads =
     ex_node [(''pads'', AttrInts [0, 0, 0])]
       [ex_tensor [DimValue 1, DimValue 3, DimValue 4, DimValue 4],
        ex_tensor [DimValue 3, DimValue 8, DimValue 3, DimValue 3]]"

definition ex_conv_two_groups_bad_dilations :: inference_context where
  "ex_conv_two_groups_bad_dilations =
     ex_node [(''group'', AttrInt 2), (''dilations'', AttrInts [1])]
       [ex_tensor [DimValue 1, DimValue 4, DimValue 5, DimValue 5],
        ex_tensor [DimValue 8, DimValue 2, DimValue 3, DimValue 3]]"

text \<open>
  Region-of-interest pooling of a 5x5 image with a symbolic number of channels and of
  regions, and of a signal with one spatial axis, both with a pooled shape of 2x2.
\<close>

definition ex_roi_pool :: inference_context where
  "ex_roi_pool =
     ex_node [(''pooled_shape'', AttrInts [2, 2])]
       [ex_tensor [DimValue 1, DimParam ''C'', DimValue 5, DimValue 5],
        ex_tensor [DimParam ''R'', DimValue 5]]"

definition ex_roi_pool_rank3 :: inference_context where
  "ex_roi_pool_rank3 =
     ex_node [(''pooled_shape'', AttrInts [2, 2])]
       [ex_tensor [DimValue 1, DimValue 3, DimValue 5],
        ex_tensor [DimValue 4, DimValue 5]]"

text \<open>
  Flatten of a tensor of shape (2, 3, 4): with an axis attribute beyond the range of
  \<open>int\<close>, and with a given axis.
\<close>

definition ex_flatten_wide_axis :: inference_context where
  "ex_flatten_wide_axis =
     ex_node [(''axis'', AttrInt 4294967297)]
       [ex_tensor [DimValue 2, DimValue 3, DimValue 4]]"

definition ex_flatten :: "int \<Rightarrow> inference_context" where
  "ex_flatten axis =
     ex_node [(''axis'', AttrInt axis)] [ex_tensor [DimValue 2, DimValue 3, DimValue 4]]"

section \<open>Properties\<close>

subsection \<open>What the propagation of the element type leaves alone\<close>

lemma getInputType_propagate:
  "getInputType (propagateElemTypeFromInputToOutput ctx i j) n = getInputType ctx n"
  by (simp add: propagateElemTypeFromInputToOutput_def getInputType_def split: option.splits)

lemma getAttributeProto_propagate:
  "getAttributeProto (propagateElemTypeFromInputToOutput ctx i j) name =
   getAttributeProto ctx name"
  by (simp add: propagateElemTypeFromInputToOutput_def getAttributeProto_def
      split: option.splits)

lemma getAttribute_propagate:
  "getAttribute (propagateElemTypeFromInputToOutput ctx i j) name d = getAttribute ctx name d"
  by (simp add: getAttribute_def getAttributeProto_propagate)

lemma getRepeatedAttribute_propagate:
  "getRepeatedAttribute (propagateElemTypeFromInputToOutput ctx i j) name =
   getRepeatedAttribute ctx name"
  by (simp add: getRepeatedAttribute_def getAttributeProto_propagate)

lemma hasInputShape_propagate:
  "hasInputShape (propagateElemTypeFromInputToOutput ctx i j) n = hasInputShape ctx n"
  by (simp add: hasInputShape_def getInputType_propagate)

lemma hasNInputShapes_propagate:
  "hasNInputShapes (propagateElemTypeFromInputToOutput ctx i j) n = hasNInputShapes ctx n"
proof -
  have "hasInputShape (propagateElemTypeFromInputToOutput ctx i j) = hasInputShape ctx"
    by (rule ext) (simp add: hasInputShape_propagate)
  then show ?thesis by (simp add: hasNInputShapes_def)
qed

lemma getInputShape_propagate:
  "getInputShape (propagateElemTypeFromInputToOutput ctx i j) n = getInputShape ctx n"
  by (simp add: getInputShape_def getInputType_propagate)

lemma shape_output_propagate:
  "shape (output_type (propagateElemTypeFromInputToOutput ctx i j)) = shape (output_type ctx)"
  by (simp add: propagateElemTypeFromInputToOutput_def split: option.splits)

lemma output_dims_propagate:
  "output_dims (propagateElemTypeFromInputToOutput ctx i j) = output_dims ctx"
  by (simp add: output_dims_def shape_output_propagate)

lemmas propagate_simps =
  getInputType_propagate getAttributeProto_propagate getAttribute_propagate
  getRepeatedAttribute_propagate hasInputShape_propagate hasNInputShapes_propagate
  getInputShape_propagate shape_output_propagate output_dims_propagate

lemma shape_set_output_dims: "shape (output_type (set_output_dims ctx ds)) = Some ds"
  by (simp add: set_output_dims_def)

lemma elem_type_set_output_dims:
  "elem_type (output_type (set_output_dims ctx ds)) = elem_type (output_type ctx)"
  by (simp add: set_output_dims_def)

text \<open>Evaluation of the example nodes.\<close>

lemmas ex_simps =
  ex_node_def ex_tensor_def getAttributeProto_def getAttribute_def getRepeatedAttribute_def
  getInputType_def hasInputShape_def hasNInputShapes_def getInputShape_def
  propagateElemTypeFromInputToOutput_def output_dims_def set_output_dims_def

subsection \<open>The element type is propagated on every path\<close>

lemma elem_type_convPool:
  "elem_type (output_type (snd (convPoolTypeAndShapeInference ctx ud rk))) =
   elem_type (output_type (propagateElemTypeFromInputToOutput ctx 0 0))"
  by (simp add: convPoolTypeAndShapeInference_def Let_def elem_type_set_output_dims
      split: option.splits sum.splits)

lemma elem_type_convTranspose:
  "elem_type (output_type (snd (convTransposeShapeInference ctx))) =
   elem_type (output_type (propagateElemTypeFromInputToOutput ctx 0 0))"
  by (simp add: convTransposeShapeInference_def Let_def elem_type_set_output_dims
      split: option.splits sum.splits)

lemma elem_type_roiPool:
  "elem_type (output_type (snd (roiPoolTypeShapeInference ctx))) =
   elem_type (output_type (propagateElemTypeFromInputToOutput ctx 0 0))"
  by (simp add: roiPoolTypeShapeInference_def Let_def elem_type_set_output_dims
      split: option.splits sum.splits)

lemma elem_type_globalPool:
  "elem_type (output_type (snd (gloablPoolTypeShapeInference ctx))) =
   elem_type (output_type (propagateElemTypeFromInputToOutput ctx 0 0))"
  by (simp add: gloablPoolTypeShapeInference_def Let_def elem_type_set_output_dims
      split: option.splits sum.splits)

lemma elem_type_Flatten:
  "elem_type (output_type (snd (Flatten_inference ctx))) =
   elem_type (output_type (propagateElemTypeFromInputToOutput ctx 0 0))"
  by (simp add: Flatten_inference_def Let_def elem_type_set_output_dims updateOutputShape_def
      split: option.splits sum.splits)

text \<open>
  Claim C9. Each of the five inference functions copies the element type of the first
  input to the output before any check: whatever path the function then takes, a
  return that writes no shape and a failure included, the context it leaves holds the
  element type of the first input in its output slot.
\<close>

theorem elem_type_propagated_on_every_path:
  assumes "getInputType ctx 0 = Some t"
  shows "elem_type (output_type (snd (convPoolTypeAndShapeInference ctx ud rk))) = elem_type t \<and>
         elem_type (output_type (snd (convTransposeShapeInference ctx))) = elem_type t \<and>
         elem_type (output_type (snd (roiPoolTypeShapeInference ctx))) = elem_type t \<and>
         elem_type (output_type (snd (gloablPoolTypeShapeInference ctx))) = elem_type t \<and>
         elem_type (output_type (snd (Flatten_inference ctx))) = elem_type t"
proof -
  have "elem_type (output_type (propagateElemTypeFromInputToOutput ctx 0 0)) = elem_type t"
    using assms by (simp add: propagateElemTypeFromInputToOutput_def)
  then show ?thesis
    by (simp add: elem_type_convPool elem_type_convTranspose elem_type_roiPool
        elem_type_globalPool elem_type_Flatten)
qed

text \<open>
  A convolution with two groups returns without a shape, and its output has the
  element type of the input all the same.
\<close>

theorem elem_type_propagated_on_every_path_witness:
  "getInputType ex_conv_two_groups 0 =
     Some \<lparr>elem_type = 1, shape = Some [DimValue 1, DimValue 4, DimValue 5, DimValue 5]\<rparr> \<and>
   elem_type (output_type (snd (convPoolTypeAndShapeInference ex_conv_two_groups True False))) = 1 \<and>
   shape (output_type (snd (convPoolTypeAndShapeInference ex_conv_two_groups True False))) = None"
proof -
  have t: "getInputType ex_conv_two_groups 0 =
     Some \<lparr>elem_type = 1, shape = Some [DimValue 1, DimValue 4, DimValue 5, DimValue 5]\<rparr>"
    by (simp add: ex_conv_two_groups_def ex_simps)
  have "shape (output_type (snd (convPoolTypeAndShapeInference ex_conv_two_groups True False))) =
          None"
    by (simp add: convPoolTypeAndShapeInference_def ex_conv_two_groups_def ex_simps Let_def)
  with t elem_type_propagated_on_every_path [OF t, of True False] show ?thesis
    by simp
qed

subsection \<open>Global pooling\<close>

text \<open>
  Claim C7. For each global pooling operator, on an input whose shape is known and has
  rank at least 2, inference returns and the output shape is the batch and channel
  dimensions of the input, copied as they are, followed by rank - 2 dimensions of value
  1, whatever the spatial dimensions of the input hold.
\<close>

theorem globalPool_output_shape:
  assumes "hasNInputShapes ctx 1" and "getInputShape ctx 0 = sh" and "2 \<le> length sh"
  shows "\<forall>f \<in> {GlobalAveragePool_inference, GlobalMaxPool_inference, GlobalLpPool_inference}.
           fst (f ctx) = Returned \<and>
           shape (output_type (snd (f ctx))) =
             Some (output_dims ctx @ [sh ! 0, sh ! 1] @ replicate (length sh - 2) (DimValue 1))"
proof -
  have "gloablPoolTypeShapeInference ctx =
          (Returned,
           set_output_dims (propagateElemTypeFromInputToOutput ctx 0 0)
             (output_dims ctx @ [sh ! 0, sh ! 1] @ replicate (length sh - 2) (DimValue 1)))"
    using assms by (simp add: gloablPoolTypeShapeInference_def propagate_simps Let_def)
  then show ?thesis
    by (simp add: GlobalAveragePool_inference_def GlobalMaxPool_inference_def
        GlobalLpPool_inference_def shape_set_output_dims)
qed

theorem globalPool_output_shape_witness:
  "getInputShape ex_global_pool 0 = [DimParam ''N'', DimValue 3, DimParam ''H'', DimNotSet] \<and>
   fst (GlobalMaxPool_inference ex_global_pool) = Returned \<and>
   shape (output_type (snd (GlobalMaxPool_inference ex_global_pool))) =
     Some [DimParam ''N'', DimValue 3, DimValue 1, DimValue 1]"
proof -
  have h1: "hasNInputShapes ex_global_pool 1"
    by (simp add: ex_global_pool_def ex_simps)
  have h2: "getInputShape ex_global_pool 0 =
              [DimParam ''N'', DimValue 3, DimParam ''H'', DimNotSet]"
    by (simp add: ex_global_pool_def ex_simps)
  have h3: "2 \<le> length [DimParam ''N'', DimValue 3, DimParam ''H'', DimNotSet]"
    by simp
  have "output_dims ex_global_pool = []"
    by (simp add: ex_global_pool_def ex_simps)
  with globalPool_output_shape [OF h1 h2 h3] h2 show ?thesis
    by (simp add: numeral_2_eq_2)
qed

subsection \<open>Convolution and pooling: the output dimensions\<close>

lemma int64_in_range: "in_int64 v \<Longrightarrow> int64 v = v"
  by (simp add: in_int64_def int64_def)

lemma sdiv_eq_div_agree: "sgn (a::int) = sgn b \<or> b dvd a \<Longrightarrow> a sdiv b = a div b"
  by (auto simp add: signed_divide_int_eq_divide_int)

lemma convPool_spatial_loop_in_range:
  assumes "length input_shape = n + 2" "length pads = 2 * n" "length kernel_shape = n"
    "length dilations = n" "length strides = n"
    "\<forall>i\<in>set idxs. i < n \<and> strides ! i \<noteq> 0 \<and>
       (has_dim_value (input_shape ! (2 + i)) \<longrightarrow>
        convPool_axis_in_range (dim_value (input_shape ! (2 + i))) (pads ! i) (pads ! (n + i))
          (kernel_shape ! i) (dilations ! i) (strides ! i))"
  shows "convPool_spatial_loop input_shape pads kernel_shape dilations strides idxs out =
    (Returned, out @ map (\<lambda>i.
       if has_dim_value (input_shape ! (2 + i))
       then DimValue (1 + (dim_value (input_shape ! (2 + i)) + pads ! i + pads ! (i + n)
                         - ((kernel_shape ! i - 1) * dilations ! i + 1)) sdiv strides ! i)
       else DimNotSet) idxs)"
  using assms
proof (induction idxs arbitrary: out)
  case Nil
  then show ?case by simp
next
  case (Cons i rest)
  show ?case
  proof (cases "has_dim_value (input_shape ! (2 + i))")
    case False
    with Cons show ?thesis by simp
  next
    case True
    with Cons.prems have r: "convPool_axis_in_range (dim_value (input_shape ! (2 + i)))
        (pads ! i) (pads ! (n + i)) (kernel_shape ! i) (dilations ! i) (strides ! i)"
      and nz: "strides ! i \<noteq> 0" and i: "i < n"
      by simp_all
    let ?num = "dim_value (input_shape ! (2 + i)) + pads ! i + pads ! (i + n)
                  - ((kernel_shape ! i - 1) * dilations ! i + 1)"
    from r have w: "int64 (dim_value (input_shape ! (2 + i)) + pads ! i) =
          dim_value (input_shape ! (2 + i)) + pads ! i"
      "int64 (dim_value (input_shape ! (2 + i)) + pads ! i + pads ! (i + n)) =
          dim_value (input_shape ! (2 + i)) + pads ! i + pads ! (i + n)"
      "int64 (kernel_shape ! i - 1) = kernel_shape ! i - 1"
      "int64 ((kernel_shape ! i - 1) * dilations ! i) = (kernel_shape ! i - 1) * dilations ! i"
      "int64 ((kernel_shape ! i - 1) * dilations ! i + 1) =
          (kernel_shape ! i - 1) * dilations ! i + 1"
      "int64 ?num = ?num"
      "int64 (1 + ?num sdiv strides ! i) = 1 + ?num sdiv strides ! i"
      by (simp_all add: convPool_axis_in_range_def spec_effective_kernel_def int64_in_range
          add.commute)
    have nomin: "\<not> (?num = - 9223372036854775808 \<and> strides ! i = - 1)"
    proof
      assume "?num = - 9223372036854775808 \<and> strides ! i = - 1"
      then have "1 + ?num sdiv strides ! i = 9223372036854775809" by simp
      moreover from r have "in_int64 (1 + ?num sdiv strides ! i)"
        by (simp add: convPool_axis_in_range_def spec_effective_kernel_def add.commute)
      ultimately show False by (simp add: in_int64_def)
    qed
    have step: "convPool_spatial_loop input_shape pads kernel_shape dilations strides
        (i # rest) out =
      convPool_spatial_loop input_shape pads kernel_shape dilations strides rest
        (out @ [DimValue (1 + ?num sdiv strides ! i)])"
      apply (simp only: convPool_spatial_loop.simps Let_def Cons.prems(3) True nz nomin w
          simp_thms if_False if_True)
      using Cons.prems(1-5) i apply simp
      done
    have ih: "convPool_spatial_loop input_shape pads kernel_shape dilations strides rest out' =
      (Returned, out' @ map (\<lambda>i.
         if has_dim_value (input_shape ! (2 + i))
         then DimValue (1 + (dim_value (input_shape ! (2 + i)) + pads ! i + pads ! (i + n)
                           - ((kernel_shape ! i - 1) * dilations ! i + 1)) sdiv strides ! i)
         else DimNotSet) rest)" for out'
      using Cons.IH [OF Cons.prems(1-5)] Cons.prems(6) by simp
    show ?thesis unfolding step ih using True by simp
  qed
qed

text \<open>
  Where no step of the arithmetic leaves the range of \<open>int64_t\<close> and the truncating
  division agrees with the floor (the stride has the sign of the numerator or divides
  it), the code writes the dimensions of the sliding-window formula: for Conv,
  AveragePool, MaxPool and LpPool (the two settings of the flags), on a first input of
  known shape and rank at least 2 whose spatial dimensions all have values, with group
  1, no auto\_pad, attributes of the right lengths and a kernel shape resolved to one
  value per spatial axis.
\<close>

lemma convPool_output_dims_in_range:
  assumes in0: "hasNInputShapes ctx 1" "getInputShape ctx 0 = sh" "2 \<le> length sh"
      "n = length sh - 2"
    and known: "\<forall>i<n. has_dim_value (sh ! (2 + i))"
    and in1: "require_kernel_shape \<or> (hasNInputShapes ctx 2 \<and> 1 \<le> length (getInputShape ctx 1))"
    and nopad: "getAttributeProto ctx ''auto_pad'' = None"
    and grp: "getAttribute ctx ''group'' 1 = 1"
    and dil: "dilations = (if use_dilation then attribute_or_default ctx ''dilations'' (replicate n 1)
                          else replicate n 1)" "length dilations = n"
    and pads: "pads = attribute_or_default ctx ''pads'' (replicate (2 * n) 0)" "length pads = 2 * n"
    and str: "strides = attribute_or_default ctx ''strides'' (replicate n 1)" "length strides = n"
    and ker: "resolved_kernel_shape ctx require_kernel_shape = Some ks" "length ks = n"
    and rng: "\<forall>i<n. strides ! i \<noteq> 0 \<and>
                 convPool_axis_in_range (dim_value (sh ! (2 + i))) (pads ! i) (pads ! (n + i))
                   (ks ! i) (dilations ! i) (strides ! i)"
    and agree: "\<forall>i<n. sgn (dim_value (sh ! (2 + i)) + pads ! i + pads ! (n + i)
                            - spec_effective_kernel (ks ! i) (dilations ! i)) = sgn (strides ! i) \<or>
                  strides ! i dvd dim_value (sh ! (2 + i)) + pads ! i + pads ! (n + i)
                            - spec_effective_kernel (ks ! i) (dilations ! i)"
  shows "fst (convPoolTypeAndShapeInference ctx use_dilation require_kernel_shape) = Returned \<and>
         shape (output_type (snd (convPoolTypeAndShapeInference ctx use_dilation require_kernel_shape))) =
           Some (output_dims ctx @
                 [sh ! 0, if require_kernel_shape then sh ! 1 else getInputShape ctx 1 ! 0] @
                 map (\<lambda>i. DimValue (spec_output_dim (dim_value (sh ! (2 + i))) (pads ! i)
                                    (pads ! (n + i)) (ks ! i) (dilations ! i) (strides ! i)))
                   [0..<n])"
proof -
  let ?ctx = "propagateElemTypeFromInputToOutput ctx 0 0"
  have len: "length sh = n + 2" using in0 by simp
  have d: "(if use_dilation
            then (case getRepeatedAttribute ctx ''dilations'' of
                    Some ds \<Rightarrow>
                      (if length ds \<noteq> n
                       then Inl (InferenceError ''Attribute dilations has incorrect size'')
                       else Inr ds)
                  | None \<Rightarrow> Inr (replicate n 1))
            else Inr (replicate n 1)) = Inr dilations"
    using dil by (auto simp: attribute_or_default_def split: option.splits)
  have p: "(case getRepeatedAttribute ctx ''pads'' of
              Some ps \<Rightarrow>
                (if length ps \<noteq> n * 2
                 then Inl (InferenceError ''Attribute pads has incorrect size'')
                 else Inr ps)
            | None \<Rightarrow> Inr (replicate (n * 2) 0)) = Inr pads"
    using pads by (auto simp: attribute_or_default_def mult.commute split: option.splits)
  have s: "(case getRepeatedAttribute ctx ''strides'' of
              Some ss \<Rightarrow>
                (if length ss \<noteq> n
                 then Inl (InferenceError ''Attribute strides has incorrect size'')
                 else Inr ss)
            | None \<Rightarrow> Inr (replicate n 1)) = Inr strides"
    using str by (auto simp: attribute_or_default_def split: option.splits)
  have k: "(case getRepeatedAttribute ctx ''kernel_shape'' of
              Some ks \<Rightarrow>
                (if length ks \<noteq> n
                 then Inl (InferenceError ''Attribute kernel_shape has incorrect size'')
                 else Inr ks)
            | None \<Rightarrow>
                (if require_kernel_shape
                 then Inl (InferenceError ''Attribute kernel_shape must be specified'')
                 else (case kernel_shape_from_dims (drop 2 (getInputShape ctx 1)) [] of
                         None \<Rightarrow> Inl Returned
                       | Some ks \<Rightarrow> Inr ks))) = Inr ks"
    using ker by (auto simp: resolved_kernel_shape_def split: option.splits if_splits)
  have nz: "\<forall>i\<in>set [0..<n]. i < n \<and> strides ! i \<noteq> 0 \<and>
      (has_dim_value (sh ! (2 + i)) \<longrightarrow>
       convPool_axis_in_range (dim_value (sh ! (2 + i))) (pads ! i) (pads ! (n + i))
         (ks ! i) (dilations ! i) (strides ! i))"
    using rng by simp
  have loop: "convPool_spatial_loop sh pads ks dilations strides [0..<n] out =
    (Returned, out @ map (\<lambda>i. DimValue (spec_output_dim (dim_value (sh ! (2 + i))) (pads ! i)
                                    (pads ! (n + i)) (ks ! i) (dilations ! i) (strides ! i)))
                   [0..<n])" for out
  proof -
    have "map (\<lambda>i. if has_dim_value (sh ! (2 + i))
       then DimValue (1 + (dim_value (sh ! (2 + i)) + pads ! i + pads ! (i + n)
                         - ((ks ! i - 1) * dilations ! i + 1)) sdiv strides ! i)
       else DimNotSet) [0..<n] =
       map (\<lambda>i. DimValue (spec_output_dim (dim_value (sh ! (2 + i))) (pads ! i)
                                    (pads ! (n + i)) (ks ! i) (dilations ! i) (strides ! i)))
                   [0..<n]"
    proof (rule map_cong [OF refl])
      fix i assume "i \<in> set [0..<n]"
      then have i: "i < n" by simp
      with agree have "sgn (dim_value (sh ! (2 + i)) + pads ! i + pads ! (i + n)
              - ((ks ! i - 1) * dilations ! i + 1)) = sgn (strides ! i) \<or>
          strides ! i dvd dim_value (sh ! (2 + i)) + pads ! i + pads ! (i + n)
              - ((ks ! i - 1) * dilations ! i + 1)"
        by (simp add: spec_effective_kernel_def add.commute)
      then have "(dim_value (sh ! (2 + i)) + pads ! i + pads ! (i + n)
              - ((ks ! i - 1) * dilations ! i + 1)) sdiv strides ! i =
          (dim_value (sh ! (2 + i)) + pads ! i + pads ! (i + n)
              - ((ks ! i - 1) * dilations ! i + 1)) div strides ! i"
        by (rule sdiv_eq_div_agree)
      then show "(if has_dim_value (sh ! (2 + i))
       then DimValue (1 + (dim_value (sh ! (2 + i)) + pads ! i + pads ! (i + n)
                         - ((ks ! i - 1) * dilations ! i + 1)) sdiv strides ! i)
       else DimNotSet) = DimValue (spec_output_dim (dim_value (sh ! (2 + i))) (pads ! i)
                                    (pads ! (n + i)) (ks ! i) (dilations ! i) (strides ! i))"
        using known i
        by (simp add: spec_output_dim_def spec_effective_kernel_def add.commute)
    qed
    then show ?thesis
      using convPool_spatial_loop_in_range [OF len pads(2) ker(2) dil(2) str(2) nz, of out]
      by simp
  qed
  have n_eq: "length sh - 2 = n" using in0 by simp
  have two: "\<not> length sh < 2" using in0 by simp
  have in1': "\<not> (\<not> require_kernel_shape \<and> \<not> hasNInputShapes ctx 2)"
    "\<not> (\<not> require_kernel_shape \<and> length (getInputShape ctx 1) < 1)"
    using in1 by auto
  have grp': "\<not> getAttribute ctx ''group'' 1 \<noteq> 1" using grp by simp
  have nopad': "\<not> getAttributeProto ctx ''auto_pad'' \<noteq> None" using nopad by simp
  have in0': "\<not> \<not> hasNInputShapes ctx 1" using in0 by simp
  show ?thesis
    unfolding convPoolTypeAndShapeInference_def Let_def propagate_simps in0(2) n_eq
    apply (simp only: in0' in1' nopad' two grp' d p s k if_False sum.case ker(2) loop
        fst_conv snd_conv shape_set_output_dims)
    apply simp
    done
qed

text \<open>
  Pooling with kernel 2, stride 2 and no padding is within these conditions and takes a
  4x4 image to 2x2.
\<close>

lemma convPool_output_dims_in_range_example:
  "fst (MaxPool_inference ex_pool_4x4) = Returned \<and>
   shape (output_type (snd (MaxPool_inference ex_pool_4x4))) =
     Some [DimValue 1, DimValue 3, DimValue 2, DimValue 2]"
proof -
  let ?sh = "[DimValue 1, DimValue 3, DimValue 4, DimValue 4]"
  have in0: "hasNInputShapes ex_pool_4x4 1" "getInputShape ex_pool_4x4 0 = ?sh"
    "2 \<le> length ?sh" "(2::nat) = length ?sh - 2"
    by code_simp+
  have known: "\<forall>i<2. has_dim_value (?sh ! (2 + i))"
    by (simp add: numeral_2_eq_2 All_less_Suc)
  have in1: "True \<or> (hasNInputShapes ex_pool_4x4 2 \<and> 1 \<le> length (getInputShape ex_pool_4x4 1))"
    by simp
  have nopad: "getAttributeProto ex_pool_4x4 ''auto_pad'' = None"
    and grp: "getAttribute ex_pool_4x4 ''group'' 1 = 1"
    by code_simp+
  have dil: "[1, 1] = (if False then attribute_or_default ex_pool_4x4 ''dilations'' (replicate 2 1)
                       else replicate 2 1)" "length [1, 1 :: int] = 2"
    by (simp_all add: numeral_2_eq_2)
  have pads: "[0, 0, 0, 0] = attribute_or_default ex_pool_4x4 ''pads'' (replicate (2 * 2) 0)"
    "length [0, 0, 0, 0 :: int] = 2 * 2"
    by code_simp+
  have str: "[2, 2] = attribute_or_default ex_pool_4x4 ''strides'' (replicate 2 1)"
    "length [2, 2 :: int] = 2"
    by code_simp+
  have ker: "resolved_kernel_shape ex_pool_4x4 True = Some [2, 2]" "length [2, 2 :: int] = 2"
    by code_simp+
  have axis: "convPool_axis_in_range 4 0 0 2 1 2"
    by code_simp
  have rng: "\<forall>i<2. [2, 2 :: int] ! i \<noteq> 0 \<and>
      convPool_axis_in_range (dim_value (?sh ! (2 + i))) ([0, 0, 0, 0] ! i)
        ([0, 0, 0, 0] ! (2 + i)) ([2, 2] ! i) ([1, 1] ! i) ([2, 2] ! i)"
    by (simp add: numeral_2_eq_2 All_less_Suc axis)
  have agree: "\<forall>i<2. sgn (dim_value (?sh ! (2 + i)) + [0, 0, 0, 0] ! i + [0, 0, 0, 0] ! (2 + i)
                            - spec_effective_kernel ([2, 2] ! i) ([1, 1] ! i)) = sgn ([2, 2 :: int] ! i) \<or>
      [2, 2] ! i dvd dim_value (?sh ! (2 + i)) + [0, 0, 0, 0] ! i + [0, 0, 0, 0] ! (2 + i)
                            - spec_effective_kernel ([2, 2] ! i) ([1, 1] ! i)"
    by (simp add: numeral_2_eq_2 All_less_Suc spec_effective_kernel_def)
  have out: "output_dims ex_pool_4x4 = []"
    by code_simp
  from convPool_output_dims_in_range [OF in0 known in1 nopad grp dil pads str ker rng agree] out
  show ?thesis
    by (simp add: MaxPool_inference_def numeral_2_eq_2 spec_output_dim_def
        spec_effective_kernel_def)
qed

text \<open>
  With the greatest \<open>int64_t\<close> as input dimension and a pad of 1 the padded size wraps
  around, and so does the result.
\<close>

lemma convPool_example_overflow:
  "fst (MaxPool_inference ex_pool_overflow) = Returned"
  "shape (output_type (snd (MaxPool_inference ex_pool_overflow))) =
     Some [DimValue 1, DimValue 3, DimValue (- 9223372036854775808)]"
  by code_simp+

text \<open>
  Claim C1. The claim, like the documentation of the pooling operators in the source,
  gives every output spatial dimension as the floor of the quotient, plus 1. The code
  divides with the truncating division of \<open>int64_t\<close>. Max pooling with kernel 4 and
  stride 2 on a spatial dimension of 1 meets the conditions of the claim; the code
  divides -3 by 2 towards zero and writes \<open>1 + (-1) = 0\<close>, where the floor of the claim
  gives \<open>-2 + 1 = -1\<close>.
\<close>

theorem convPool_truncates_where_claim_floors:
  "hasNInputShapes ex_pool_kernel_too_large 1 \<and>
   getInputShape ex_pool_kernel_too_large 0 = [DimValue 1, DimValue 3, DimValue 1] \<and>
   getAttribute ex_pool_kernel_too_large ''group'' 1 = 1 \<and>
   getAttributeProto ex_pool_kernel_too_large ''auto_pad'' = None \<and>
   resolved_kernel_shape ex_pool_kernel_too_large True = Some [4] \<and>
   attribute_or_default ex_pool_kernel_too_large ''strides'' [1] = [2] \<and>
   attribute_or_default ex_pool_kernel_too_large ''pads'' [0, 0] = [0, 0] \<and>
   fst (MaxPool_inference ex_pool_kernel_too_large) = Returned \<and>
   shape (output_type (snd (MaxPool_inference ex_pool_kernel_too_large))) =
     Some [DimValue 1, DimValue 3, DimValue 0] \<and>
   spec_output_dim 1 0 0 4 1 2 = - 1"
  by code_simp

subsection \<open>Transposed convolution\<close>

lemma convTranspose_spatial_loop_in_range:
  assumes "length input_shape = n + 2" "length pads = 2 * n" "length kernel_shape = n"
    "length strides = n" "length output_padding = n"
    "\<forall>i\<in>set idxs. i < n \<and>
       (has_dim_value (input_shape ! (2 + i)) \<longrightarrow>
        convTranspose_axis_in_range (strides ! i) (dim_value (input_shape ! (2 + i)))
          (output_padding ! i) (kernel_shape ! i) (pads ! i) (pads ! (n + i)))"
  shows "convTranspose_spatial_loop input_shape pads kernel_shape strides output_padding idxs out =
    (Returned, out @ map (\<lambda>i.
       if has_dim_value (input_shape ! (2 + i))
       then DimValue (spec_convTranspose_output_dim (strides ! i)
              (dim_value (input_shape ! (2 + i))) (output_padding ! i) (kernel_shape ! i)
              (pads ! i) (pads ! (n + i)))
       else DimNotSet) idxs)"
  using assms
proof (induction idxs arbitrary: out)
  case Nil
  then show ?case by simp
next
  case (Cons i rest)
  show ?case
  proof (cases "has_dim_value (input_shape ! (2 + i))")
    case False
    with Cons show ?thesis by simp
  next
    case True
    with Cons.prems have r: "convTranspose_axis_in_range (strides ! i)
        (dim_value (input_shape ! (2 + i))) (output_padding ! i) (kernel_shape ! i)
        (pads ! i) (pads ! (n + i))"
      and i: "i < n"
      by simp_all
    let ?d = "dim_value (input_shape ! (2 + i))"
    from r have w: "int64 (?d - 1) = ?d - 1"
      "int64 (strides ! i * (?d - 1)) = strides ! i * (?d - 1)"
      "int64 (output_padding ! i + kernel_shape ! i) = output_padding ! i + kernel_shape ! i"
      "int64 (strides ! i * (?d - 1) + (output_padding ! i + kernel_shape ! i)) =
         strides ! i * (?d - 1) + (output_padding ! i + kernel_shape ! i)"
      "int64 (strides ! i * (?d - 1) + (output_padding ! i + kernel_shape ! i) - pads ! i) =
         strides ! i * (?d - 1) + (output_padding ! i + kernel_shape ! i) - pads ! i"
      "int64 (strides ! i * (?d - 1) + (output_padding ! i + kernel_shape ! i) - pads ! i
              - pads ! (i + n)) =
         spec_convTranspose_output_dim (strides ! i) ?d (output_padding ! i) (kernel_shape ! i)
           (pads ! i) (pads ! (n + i))"
      by (simp_all add: convTranspose_axis_in_range_def spec_convTranspose_output_dim_def
          int64_in_range add.commute add.assoc)
    have step: "convTranspose_spatial_loop input_shape pads kernel_shape strides output_padding
        (i # rest) out =
      convTranspose_spatial_loop input_shape pads kernel_shape strides output_padding rest
        (out @ [DimValue (spec_convTranspose_output_dim (strides ! i) ?d (output_padding ! i)
                  (kernel_shape ! i) (pads ! i) (pads ! (n + i)))])"
      using Cons.prems(1-5) True i
      by (simp only: convTranspose_spatial_loop.simps Let_def w) simp
    have ih: "convTranspose_spatial_loop input_shape pads kernel_shape strides output_padding
        rest out' =
      (Returned, out' @ map (\<lambda>i.
         if has_dim_value (input_shape ! (2 + i))
         then DimValue (spec_convTranspose_output_dim (strides ! i)
                (dim_value (input_shape ! (2 + i))) (output_padding ! i) (kernel_shape ! i)
                (pads ! i) (pads ! (n + i)))
         else DimNotSet) rest)" for out'
      using Cons.IH [OF Cons.prems(1-5)] Cons.prems(6) by simp
    show ?thesis unfolding step ih using True by simp
  qed
qed

lemma convTranspose_output_shape_loop_upt:
  assumes "length output_shape = n" "length input_shape = n + 2"
  shows "convTranspose_output_shape_loop input_shape output_shape [j..<n] out =
    (Returned, out @ map DimValue (map fst (takeWhile (\<lambda>(v, d). dim_value d \<le> v)
        (zip (drop j output_shape) (drop (j + 2) input_shape)))))"
  using assms
proof (induction "n - j" arbitrary: j out)
  case 0
  then show ?case by simp
next
  case (Suc m)
  then have j: "j < n" by simp
  have u: "[j..<n] = j # [Suc j..<n]" using j by (simp add: upt_conv_Cons)
  have d1: "drop j output_shape = output_shape ! j # drop (Suc j) output_shape"
    using j Suc.prems by (simp add: Cons_nth_drop_Suc)
  have d2: "drop (j + 2) input_shape = input_shape ! (j + 2) # drop (Suc j + 2) input_shape"
    using j Suc.prems by (simp add: Cons_nth_drop_Suc)
  have ih: "convTranspose_output_shape_loop input_shape output_shape [Suc j..<n] out' =
    (Returned, out' @ map DimValue (map fst (takeWhile (\<lambda>(v, d). dim_value d \<le> v)
        (zip (drop (Suc j) output_shape) (drop (Suc j + 2) input_shape)))))" for out'
    using Suc.hyps(1) [of "Suc j" out'] Suc.hyps(2) Suc.prems by simp
  show ?case
    unfolding u d1 d2 using j Suc.prems by (simp add: ih not_less)
qed

lemma convTranspose_output_shape_loop_all:
  assumes "length output_shape = n" "length input_shape = n + 2"
  shows "convTranspose_output_shape_loop input_shape output_shape [0..<n] out =
    (Returned, out @ map DimValue (accepted_output_shape input_shape output_shape))"
  using convTranspose_output_shape_loop_upt [OF assms, of 0 out]
  by (simp add: accepted_output_shape_def numeral_2_eq_2)


lemma accepted_prefix:
  assumes "length output_shape = n" "length input_shape = n + 2" "k < n"
    "\<forall>i<k. dim_value (input_shape ! (i + 2)) \<le> output_shape ! i"
    "output_shape ! k < dim_value (input_shape ! (k + 2))"
  shows "accepted_output_shape input_shape output_shape = take k output_shape"
proof -
  have tw: "takeWhile (\<lambda>(v, d). dim_value d \<le> v) (zip output_shape (drop 2 input_shape)) =
        take k (zip output_shape (drop 2 input_shape))"
    using assms by (intro takeWhile_eq_take_P_nth) (auto simp add: add.commute)
  show ?thesis unfolding accepted_output_shape_def tw using assms by (simp add: take_zip)
qed

lemma convTranspose_write_stage:
  assumes pre: "convTranspose_preconditions ctx n"
    and ker: "resolved_kernel_shape ctx False = Some ks"
  shows "convTransposeShapeInference ctx =
    (let sh = getInputShape ctx 0;
         out = output_dims ctx @ [sh ! 0, getInputShape ctx 1 ! 1];
         os = attribute_or_default ctx ''output_shape'' [];
         r = (if 0 < length os
              then convTranspose_output_shape_loop sh os [0..<length os] out
              else convTranspose_spatial_loop sh
                     (attribute_or_default ctx ''pads'' (replicate (2 * n) 0)) ks
                     (attribute_or_default ctx ''strides'' (replicate n 1))
                     (attribute_or_default ctx ''output_padding'' (replicate n 0))
                     [0..<length ks] out)
     in (fst r, set_output_dims (propagateElemTypeFromInputToOutput ctx 0 0) (snd r)))"
proof -
  have n_eq: "length (getInputShape ctx 0) - 2 = n"
    using pre by (simp add: convTranspose_preconditions_def)
  have r1: "(\<not> hasNInputShapes ctx 2) = False"
    "(getAttributeProto ctx ''auto_pad'' \<noteq> None) = False"
    "(length (getInputShape ctx 0) < 2) = False" "(getAttribute ctx ''group'' 1 \<noteq> 1) = False"
    "(getRepeatedAttribute ctx ''dilations'' \<noteq> None) = False"
    "(\<not> 1 < length (getInputShape ctx 1)) = False"
    using pre by (auto simp add: convTranspose_preconditions_def)
  have p: "(case getRepeatedAttribute ctx ''pads'' of
              Some ps \<Rightarrow> (if length ps \<noteq> n * 2 then None else Some ps)
            | None \<Rightarrow> Some (replicate (n * 2) 0)) =
           Some (attribute_or_default ctx ''pads'' (replicate (2 * n) 0))"
    using pre
    by (auto simp add: convTranspose_preconditions_def length_mismatch_def
        attribute_or_default_def mult.commute split: option.splits)
  have s: "(case getRepeatedAttribute ctx ''strides'' of
              Some ss \<Rightarrow> (if length ss \<noteq> n then None else Some ss)
            | None \<Rightarrow> Some (replicate n 1)) =
           Some (attribute_or_default ctx ''strides'' (replicate n 1))"
    using pre
    by (auto simp add: convTranspose_preconditions_def length_mismatch_def
        attribute_or_default_def split: option.splits)
  have k: "(case getRepeatedAttribute ctx ''kernel_shape'' of
              Some ks \<Rightarrow> (if length ks \<noteq> n then None else Some ks)
            | None \<Rightarrow> kernel_shape_from_dims (drop 2 (getInputShape ctx 1)) []) = Some ks"
    using pre ker
    by (auto simp add: convTranspose_preconditions_def length_mismatch_def
        resolved_kernel_shape_def split: option.splits)
  have os: "(case getRepeatedAttribute ctx ''output_shape'' of
              Some os \<Rightarrow> (if length os \<noteq> n then None else Some os)
            | None \<Rightarrow> Some []) =
           Some (attribute_or_default ctx ''output_shape'' [])"
    using pre
    by (auto simp add: convTranspose_preconditions_def length_mismatch_def
        attribute_or_default_def split: option.splits)
  have op: "(case getRepeatedAttribute ctx ''output_padding'' of
              Some op \<Rightarrow> (if length op \<noteq> n then None else Some op)
            | None \<Rightarrow> Some (replicate n 0)) =
           Some (attribute_or_default ctx ''output_padding'' (replicate n 0))"
    using pre
    by (auto simp add: convTranspose_preconditions_def length_mismatch_def
        attribute_or_default_def split: option.splits)
  show ?thesis
    unfolding convTransposeShapeInference_def Let_def propagate_simps n_eq r1 if_False
    apply (simp only: p s k os op option.case)
    apply simp
    done
qed

lemma convTranspose_early_exit:
  assumes "getAttributeProto ctx ''auto_pad'' \<noteq> None \<or>
           getRepeatedAttribute ctx ''dilations'' \<noteq> None \<or>
           getAttribute ctx ''group'' 1 \<noteq> 1"
  shows "convTransposeShapeInference ctx = (Returned, propagateElemTypeFromInputToOutput ctx 0 0)"
  using assms by (auto simp add: convTransposeShapeInference_def Let_def propagate_simps)

text \<open>
  Where no step of the arithmetic leaves the range of \<open>int64_t\<close> and the resolved kernel
  shape has one value per spatial axis of the first input, the code writes the batch
  dimension of the first input, the second dimension of the second input and then the
  dimensions of the formula \<open>stride * (input - 1) + output_padding + kernel - pad_before
  - pad_after\<close>.
\<close>

lemma convTranspose_output_dims_in_range:
  assumes pre: "convTranspose_preconditions ctx n"
    and nos: "getRepeatedAttribute ctx ''output_shape'' = None"
    and ker: "resolved_kernel_shape ctx False = Some ks" and lk: "length ks = n"
    and sh: "sh = getInputShape ctx 0"
    and known: "\<forall>i<n. has_dim_value (sh ! (2 + i))"
    and pads: "pads = attribute_or_default ctx ''pads'' (replicate (2 * n) 0)"
    and strides: "strides = attribute_or_default ctx ''strides'' (replicate n 1)"
    and output_padding:
      "output_padding = attribute_or_default ctx ''output_padding'' (replicate n 0)"
    and rng: "\<forall>i<n. convTranspose_axis_in_range (strides ! i) (dim_value (sh ! (2 + i)))
                (output_padding ! i) (ks ! i) (pads ! i) (pads ! (n + i))"
  shows "fst (convTransposeShapeInference ctx) = Returned"
    and "shape (output_type (snd (convTransposeShapeInference ctx))) =
        Some (output_dims ctx @ [sh ! 0, getInputShape ctx 1 ! 1] @
              map (\<lambda>i. DimValue (spec_convTranspose_output_dim (strides ! i)
                      (dim_value (sh ! (2 + i))) (output_padding ! i) (ks ! i)
                      (pads ! i) (pads ! (n + i)))) [0..<n])"
proof -
  have os: "attribute_or_default ctx ''output_shape'' [] = []"
    using nos by (simp add: attribute_or_default_def)
  have lens: "length sh = n + 2" "length pads = 2 * n" "length strides = n"
    "length output_padding = n"
    using pre sh pads strides output_padding
    by (auto simp add: convTranspose_preconditions_def length_mismatch_def
        attribute_or_default_def split: option.splits)
  have idx: "\<forall>i\<in>set [0..<n]. i < n \<and>
      (has_dim_value (sh ! (2 + i)) \<longrightarrow>
       convTranspose_axis_in_range (strides ! i) (dim_value (sh ! (2 + i)))
         (output_padding ! i) (ks ! i) (pads ! i) (pads ! (n + i)))"
    using rng by simp
  have loop: "convTranspose_spatial_loop sh pads ks strides output_padding [0..<n] out =
    (Returned, out @ map (\<lambda>i. DimValue (spec_convTranspose_output_dim (strides ! i)
                      (dim_value (sh ! (2 + i))) (output_padding ! i) (ks ! i)
                      (pads ! i) (pads ! (n + i)))) [0..<n])" for out
    unfolding convTranspose_spatial_loop_in_range [OF lens(1,2) lk lens(3,4) idx, of out]
    using known by simp
  have eqs: "getInputShape ctx 0 = sh"
    "attribute_or_default ctx ''pads'' (replicate (2 * n) 0) = pads"
    "attribute_or_default ctx ''strides'' (replicate n 1) = strides"
    "attribute_or_default ctx ''output_padding'' (replicate n 0) = output_padding"
    using sh pads strides output_padding by simp_all
  show "fst (convTransposeShapeInference ctx) = Returned"
    unfolding convTranspose_write_stage [OF pre ker] Let_def os eqs lk loop by simp
  show "shape (output_type (snd (convTransposeShapeInference ctx))) =
        Some (output_dims ctx @ [sh ! 0, getInputShape ctx 1 ! 1] @
              map (\<lambda>i. DimValue (spec_convTranspose_output_dim (strides ! i)
                      (dim_value (sh ! (2 + i))) (output_padding ! i) (ks ! i)
                      (pads ! i) (pads ! (n + i)))) [0..<n])"
    unfolding convTranspose_write_stage [OF pre ker] Let_def os eqs lk loop
    by (simp add: shape_set_output_dims)
qed

text \<open>
  With strides 2, pads 1 and output padding 1 a 4x4 image and a 3x3 kernel give
  \<open>2 * 3 + 1 + 3 - 1 - 1 = 8\<close> per axis; with auto\_pad nothing is written.
\<close>

lemma convTranspose_output_dims_in_range_example:
  "fst (convTransposeShapeInference ex_conv_transpose) = Returned \<and>
   shape (output_type (snd (convTransposeShapeInference ex_conv_transpose))) =
     Some [DimValue 1, DimValue 8, DimValue 8, DimValue 8] \<and>
   getAttributeProto ex_conv_transpose_auto_pad ''auto_pad'' \<noteq> None \<and>
   fst (convTransposeShapeInference ex_conv_transpose_auto_pad) = Returned \<and>
   shape (output_type (snd (convTransposeShapeInference ex_conv_transpose_auto_pad))) = None"
proof -
  let ?sh = "[DimValue 1, DimValue 3, DimValue 4, DimValue 4]"
  have pre: "convTranspose_preconditions ex_conv_transpose 2"
    and nos: "getRepeatedAttribute ex_conv_transpose ''output_shape'' = None"
    and ker: "resolved_kernel_shape ex_conv_transpose False = Some [3, 3]"
    and lk: "length [3, 3 :: int] = 2"
    and sh: "?sh = getInputShape ex_conv_transpose 0"
    and pads: "[1, 1, 1, 1] = attribute_or_default ex_conv_transpose ''pads'' (replicate (2 * 2) 0)"
    and strides: "[2, 2] = attribute_or_default ex_conv_transpose ''strides'' (replicate 2 1)"
    and output_padding:
      "[1, 1] = attribute_or_default ex_conv_transpose ''output_padding'' (replicate 2 0)"
    by code_simp+
  have known: "\<forall>i<2. has_dim_value (?sh ! (2 + i))"
    by (simp add: numeral_2_eq_2 All_less_Suc)
  have axis: "convTranspose_axis_in_range 2 4 1 3 1 1"
    by code_simp
  have rng: "\<forall>i<2. convTranspose_axis_in_range ([2, 2] ! i) (dim_value (?sh ! (2 + i)))
      ([1, 1] ! i) ([3, 3] ! i) ([1, 1, 1, 1] ! i) ([1, 1, 1, 1] ! (2 + i))"
    by (simp add: numeral_2_eq_2 All_less_Suc axis)
  have a: "getAttributeProto ex_conv_transpose_auto_pad ''auto_pad'' \<noteq> None"
    by code_simp
  then have a': "getAttributeProto ex_conv_transpose_auto_pad ''auto_pad'' \<noteq> None \<or>
    getRepeatedAttribute ex_conv_transpose_auto_pad ''dilations'' \<noteq> None \<or>
    getAttribute ex_conv_transpose_auto_pad ''group'' 1 \<noteq> 1"
    by simp
  have out: "output_dims ex_conv_transpose = []"
    "getInputShape ex_conv_transpose 1 = [DimValue 3, DimValue 8, DimValue 3, DimValue 3]"
    "shape (output_type ex_conv_transpose_auto_pad) = None"
    by code_simp+
  from convTranspose_output_dims_in_range
         [OF pre nos ker lk sh known pads strides output_padding rng]
    convTranspose_early_exit [OF a'] a out
  show ?thesis
    by (simp add: numeral_2_eq_2 spec_convTranspose_output_dim_def propagate_simps)
qed

text \<open>
  With the stride \<open>2^62\<close> on a signal of length 5 the product \<open>2^62 * 4\<close> wraps around to
  0, and the dimension written is the kernel size 3.
\<close>

lemma convTranspose_example_overflow:
  "fst (ConvTranspose_inference ex_conv_transpose_overflow) = Returned"
  "shape (output_type (snd (ConvTranspose_inference ex_conv_transpose_overflow))) =
     Some [DimValue 1, DimValue 8, DimValue 3]"
  by code_simp+

text \<open>
  Claim C4. The claim, like the documentation of ConvTranspose in the source, gives
  output spatial dimension \<open>i\<close> as \<open>stride[i] * (input_dim[i] - 1) + output_padding[i] +
  kernel[i] - pad_before[i] - pad_after[i]\<close>. The code checks the length of a
  \<open>kernel_shape\<close> attribute against the number of spatial axes of the first input, but
  not the number of kernel dimensions it takes from the second input, and it runs its
  loop over the kernel dimensions, reading \<open>pads[i + kernel_shape_size]\<close> as the end
  pad. For a 4x4 image of shape (1, 3, 4, 4), a weight tensor of shape (3, 8, 3) and
  pads \<open>[0, 1, 2, 3]\<close> every condition of the claim holds: both shapes are known, there
  is no auto\_pad, dilations or output\_shape attribute, group is 1, pads has \<open>2 * 2\<close>
  entries and the kernel shape resolves to \<open>[3]\<close>. The code writes the shape (1, 8, 5):
  one spatial dimension instead of two, and \<open>3 + 0 + 3 - pads[0] - pads[1] = 5\<close> where
  the formula has \<open>3 + 0 + 3 - pads[0] - pads[2] = 4\<close>.
\<close>

theorem convTranspose_kernel_rank_unchecked:
  "hasNInputShapes ex_conv_transpose_short_kernel 2 \<and>
   getInputShape ex_conv_transpose_short_kernel 0 =
     [DimValue 1, DimValue 3, DimValue 4, DimValue 4] \<and>
   getInputShape ex_conv_transpose_short_kernel 1 = [DimValue 3, DimValue 8, DimValue 3] \<and>
   getAttributeProto ex_conv_transpose_short_kernel ''auto_pad'' = None \<and>
   getRepeatedAttribute ex_conv_transpose_short_kernel ''dilations'' = None \<and>
   getAttribute ex_conv_transpose_short_kernel ''group'' 1 = 1 \<and>
   getRepeatedAttribute ex_conv_transpose_short_kernel ''output_shape'' = None \<and>
   getRepeatedAttribute ex_conv_transpose_short_kernel ''kernel_shape'' = None \<and>
   getRepeatedAttribute ex_conv_transpose_short_kernel ''pads'' = Some [0, 1, 2, 3] \<and>
   attribute_or_default ex_conv_transpose_short_kernel ''strides'' [1, 1] = [1, 1] \<and>
   attribute_or_default ex_conv_transpose_short_kernel ''output_padding'' [0, 0] = [0, 0] \<and>
   resolved_kernel_shape ex_conv_transpose_short_kernel False = Some [3] \<and>
   fst (ConvTranspose_inference ex_conv_transpose_short_kernel) = Returned \<and>
   shape (output_type (snd (ConvTranspose_inference ex_conv_transpose_short_kernel))) =
     Some [DimValue 1, DimValue 8, DimValue 5] \<and>
   spec_convTranspose_output_dim 1 4 0 3 0 2 = 4"
  by code_simp

lemma convTranspose_output_shape_mode:
  assumes pre: "convTranspose_preconditions ctx n"
    and os: "getRepeatedAttribute ctx ''output_shape'' = Some os" "os \<noteq> []"
  shows "convTransposeShapeInference ctx =
    (Returned,
     set_output_dims (propagateElemTypeFromInputToOutput ctx 0 0)
       (output_dims ctx @ [getInputShape ctx 0 ! 0, getInputShape ctx 1 ! 1] @
        map DimValue (accepted_output_shape (getInputShape ctx 0) os)))"
proof -
  obtain ks where ker: "resolved_kernel_shape ctx False = Some ks"
    using pre by (auto simp add: convTranspose_preconditions_def)
  have o: "attribute_or_default ctx ''output_shape'' [] = os"
    using os by (simp add: attribute_or_default_def)
  have lens: "length os = n" "length (getInputShape ctx 0) = n + 2"
    using pre os by (simp_all add: convTranspose_preconditions_def length_mismatch_def)
  have pos: "0 < length os" using os by simp
  show ?thesis
    unfolding convTranspose_write_stage [OF pre ker] Let_def o
    using pos by (simp add: lens(1) convTranspose_output_shape_loop_all [OF lens])
qed

lemma accepted_reaches:
  assumes "length output_shape = n" "length input_shape = n + 2" "k < n"
    "\<forall>i\<le>k. dim_value (input_shape ! (i + 2)) \<le> output_shape ! i"
  shows "k < length (accepted_output_shape input_shape output_shape) \<and>
         accepted_output_shape input_shape output_shape ! k = output_shape ! k"
proof -
  let ?P = "\<lambda>(v, d). dim_value d \<le> v"
  let ?zs = "zip output_shape (drop 2 input_shape)"
  have lz: "length ?zs = n" using assms by simp
  have P: "?P (?zs ! i)" if "i \<le> k" for i
    using that assms by (simp add: add.commute)
  have "k < length (takeWhile ?P ?zs)"
  proof (rule ccontr)
    assume "\<not> k < length (takeWhile ?P ?zs)"
    then have le: "length (takeWhile ?P ?zs) \<le> k" by simp
    with assms(3) lz have "length (takeWhile ?P ?zs) < length ?zs" by simp
    from nth_length_takeWhile [OF this] P [OF le] show False by simp
  qed
  moreover from this have "takeWhile ?P ?zs ! k = ?zs ! k" by (rule takeWhile_nth)
  ultimately show ?thesis
    using assms by (simp add: accepted_output_shape_def)
qed




text \<open>
  Claim C10, as amended. In that mode the validation reads \<open>dim_value()\<close> of the
  input dimension without asking whether it has a value. At an axis \<open>k\<close> whose input
  dimension has none (the earlier axes having passed) the comparison is against the
  default 0: an attribute value that is not negative passes and is written as output
  dimension \<open>k\<close>, and a negative one stops inference before axis \<open>k\<close> is written.
\<close>

theorem convTranspose_output_shape_unknown_dim:
  assumes pre: "convTranspose_preconditions ctx n"
    and os: "getRepeatedAttribute ctx ''output_shape'' = Some os" "os \<noteq> []"
    and sh: "sh = getInputShape ctx 0"
    and k: "k < n" and unknown: "\<not> has_dim_value (sh ! (k + 2))"
    and earlier: "\<forall>i<k. dim_value (sh ! (i + 2)) \<le> os ! i"
    and ds: "ds = written_spatial_dims ctx (snd (convTransposeShapeInference ctx))"
  shows "dim_value (sh ! (k + 2)) = 0 \<and>
         (0 \<le> os ! k \<longrightarrow> k < length ds \<and> ds ! k = DimValue (os ! k)) \<and>
         (os ! k < 0 \<longrightarrow> ds = map DimValue (take k os))"
proof -
  have lens: "length os = n" "length sh = n + 2"
    using pre os sh by (simp_all add: convTranspose_preconditions_def length_mismatch_def)
  note mode = convTranspose_output_shape_mode [OF pre os, folded sh]
  have ds': "ds = map DimValue (accepted_output_shape sh os)"
    by (simp add: ds mode written_spatial_dims_def output_dims_def shape_set_output_dims)
  have zero: "dim_value (sh ! (k + 2)) = 0"
    using unknown by (cases "sh ! (k + 2)") simp_all
  show ?thesis
  proof (intro conjI impI)
    show "dim_value (sh ! (k + 2)) = 0" by (fact zero)
  next
    assume "0 \<le> os ! k"
    with earlier zero have "\<forall>i\<le>k. dim_value (sh ! (i + 2)) \<le> os ! i"
      by (auto simp add: le_less)
    from accepted_reaches [OF lens k this]
    show "k < length ds" and "ds ! k = DimValue (os ! k)"
      by (simp_all add: ds')
  next
    assume "os ! k < 0"
    with zero have "os ! k < dim_value (sh ! (k + 2))" by simp
    from accepted_prefix [OF lens k earlier this]
    show "ds = map DimValue (take k os)" by (simp add: ds')
  qed
qed

text \<open>
  On a symbolic length the attribute value 7 is written unchecked, and with the
  attribute value -1 no spatial dimension is written.
\<close>

theorem convTranspose_output_shape_unknown_dim_witness:
  "\<not> has_dim_value (getInputShape ex_conv_transpose_unknown_dim 0 ! 2) \<and>
   written_spatial_dims ex_conv_transpose_unknown_dim
     (snd (convTransposeShapeInference ex_conv_transpose_unknown_dim)) ! 0 = DimValue 7 \<and>
   written_spatial_dims ex_conv_transpose_negative_output_shape
     (snd (convTransposeShapeInference ex_conv_transpose_negative_output_shape)) = []"
proof -
  have pre': "convTranspose_preconditions ex_conv_transpose_negative_output_shape 1"
    and os': "getRepeatedAttribute ex_conv_transpose_negative_output_shape ''output_shape'' =
                Some [- 1]" "[- 1 :: int] \<noteq> []"
    and sh': "[DimValue 1, DimValue 3, DimParam ''L''] =
                getInputShape ex_conv_transpose_negative_output_shape 0"
    by code_simp+
  have k': "(0::nat) < 1"
    and unknown': "\<not> has_dim_value ([DimValue 1, DimValue 3, DimParam ''L''] ! (0 + 2))"
    and earlier': "\<forall>i<0. dim_value ([DimValue 1, DimValue 3, DimParam ''L''] ! (i + 2))
                     \<le> [- 1] ! i"
    by simp_all
  from convTranspose_output_shape_unknown_dim [OF pre' os' sh' k' unknown' earlier' refl]
  have neg: "written_spatial_dims ex_conv_transpose_negative_output_shape
     (snd (convTransposeShapeInference ex_conv_transpose_negative_output_shape)) = []"
    by simp
  let ?sh = "[DimValue 1, DimValue 3, DimParam ''L'']"
  have pre: "convTranspose_preconditions ex_conv_transpose_unknown_dim 1"
    and os: "getRepeatedAttribute ex_conv_transpose_unknown_dim ''output_shape'' = Some [7]"
      "[7 :: int] \<noteq> []"
    and sh: "?sh = getInputShape ex_conv_transpose_unknown_dim 0"
    by code_simp+
  have k: "(0::nat) < 1" and unknown: "\<not> has_dim_value (?sh ! (0 + 2))"
    and earlier: "\<forall>i<0. dim_value (?sh ! (i + 2)) \<le> [7] ! i"
    by simp_all
  have u: "\<not> has_dim_value (getInputShape ex_conv_transpose_unknown_dim 0 ! 2)"
    by code_simp
  from convTranspose_output_shape_unknown_dim [OF pre os sh k unknown earlier refl]
  have "written_spatial_dims ex_conv_transpose_unknown_dim
     (snd (convTransposeShapeInference ex_conv_transpose_unknown_dim)) ! 0 = DimValue 7"
    by simp
  with u neg show ?thesis by simp
qed

text \<open>
  The claim as stated says that on an unknown input dimension the check passes and the
  attribute value is written. With the attribute value -1 the comparison \<open>-1 < 0\<close>
  holds, inference returns at once and no spatial dimension is written.
\<close>

theorem convTranspose_output_shape_unknown_dim_counterexample:
  "\<not> has_dim_value (getInputShape ex_conv_transpose_negative_output_shape 0 ! 2) \<and>
   getRepeatedAttribute ex_conv_transpose_negative_output_shape ''output_shape'' = Some [- 1] \<and>
   fst (convTransposeShapeInference ex_conv_transpose_negative_output_shape) = Returned \<and>
   shape (output_type (snd (convTransposeShapeInference ex_conv_transpose_negative_output_shape))) =
     Some [DimValue 1, DimValue 8]"
  by code_simp

subsection \<open>Malformed attribute lengths and the group attribute\<close>

lemma convTranspose_mismatch:
  assumes "length_mismatch ctx ''pads'' (2 * spatial_rank ctx) \<or>
           length_mismatch ctx ''strides'' (spatial_rank ctx) \<or>
           length_mismatch ctx ''kernel_shape'' (spatial_rank ctx)"
  shows "convTransposeShapeInference ctx = (Returned, propagateElemTypeFromInputToOutput ctx 0 0)"
proof -
  let ?n = "length (getInputShape ctx 0) - 2"
  let ?c = "propagateElemTypeFromInputToOutput ctx 0 0"
  let ?P = "(case getRepeatedAttribute ctx ''pads'' of
               Some ps \<Rightarrow> (if length ps \<noteq> ?n * 2 then None else Some ps)
             | None \<Rightarrow> Some (replicate (?n * 2) 0))"
  let ?S = "(case getRepeatedAttribute ctx ''strides'' of
               Some ss \<Rightarrow> (if length ss \<noteq> ?n then None else Some ss)
             | None \<Rightarrow> Some (replicate ?n 1))"
  let ?K = "(case getRepeatedAttribute ctx ''kernel_shape'' of
               Some ks \<Rightarrow> (if length ks \<noteq> ?n then None else Some ks)
             | None \<Rightarrow> kernel_shape_from_dims (drop 2 (getInputShape ctx 1)) [])"
  have P: "length_mismatch ctx ''pads'' (2 * spatial_rank ctx) \<Longrightarrow> ?P = None"
    by (cases "getRepeatedAttribute ctx ''pads''")
       (simp_all add: length_mismatch_def spatial_rank_def mult.commute)
  have S: "length_mismatch ctx ''strides'' (spatial_rank ctx) \<Longrightarrow> ?S = None"
    by (cases "getRepeatedAttribute ctx ''strides''")
       (simp_all add: length_mismatch_def spatial_rank_def)
  have K: "length_mismatch ctx ''kernel_shape'' (spatial_rank ctx) \<Longrightarrow> ?K = None"
    by (cases "getRepeatedAttribute ctx ''kernel_shape''")
       (simp_all add: length_mismatch_def spatial_rank_def)
  have e1: "convTransposeShapeInference ctx = (Returned, ?c)" if "?P = None"
    unfolding convTransposeShapeInference_def Let_def propagate_simps
    using that by (simp only: option.case if_cancel)
  have e2: "convTransposeShapeInference ctx = (Returned, ?c)" if "?S = None"
    unfolding convTransposeShapeInference_def Let_def propagate_simps
    using that by (cases ?P) (simp_all only: option.case if_cancel)
  have e3: "convTransposeShapeInference ctx = (Returned, ?c)" if "?K = None"
    unfolding convTransposeShapeInference_def Let_def propagate_simps
    using that by (cases ?P; cases ?S) (simp_all only: option.case if_cancel)
  from assms P S K e1 e2 e3 show ?thesis by blast
qed

lemma convPool_group:
  assumes "getAttribute ctx ''group'' 1 \<noteq> 1"
  shows "convPoolTypeAndShapeInference ctx ud rk =
    (if hasNInputShapes ctx 1 \<and> (rk \<or> hasNInputShapes ctx 2) \<and>
        getAttributeProto ctx ''auto_pad'' = None
     then if length (getInputShape ctx 0) < 2
          then InferenceError ''Input tensor must have atleast 2 dimensions''
          else if ud \<and> length_mismatch ctx ''dilations'' (spatial_rank ctx)
          then InferenceError ''Attribute dilations has incorrect size''
          else Returned
     else Returned, propagateElemTypeFromInputToOutput ctx 0 0)"
proof -
  let ?n = "length (getInputShape ctx 0) - 2"
  let ?D = "(if ud
             then (case getRepeatedAttribute ctx ''dilations'' of
                     Some ds \<Rightarrow>
                       (if length ds \<noteq> ?n
                        then Inl (InferenceError ''Attribute dilations has incorrect size'')
                        else Inr ds)
                   | None \<Rightarrow> Inr (replicate ?n 1))
             else Inr (replicate ?n 1))"
  have D: "?D = Inl (InferenceError ''Attribute dilations has incorrect size'') \<or> (\<exists>d. ?D = Inr d)"
    by (simp split: option.splits)
  have D': "(ud \<and> length_mismatch ctx ''dilations'' (spatial_rank ctx)) =
            (?D = Inl (InferenceError ''Attribute dilations has incorrect size''))"
    by (simp add: length_mismatch_def spatial_rank_def split: option.splits)
  have g: "(getAttribute ctx ''group'' 1 \<noteq> 1) = True" using assms by simp
  show ?thesis
    unfolding convPoolTypeAndShapeInference_def Let_def propagate_simps D' g if_True
    using D by (auto simp del: One_nat_def)
qed

lemma convPool_mismatch:
  assumes reach: "hasNInputShapes ctx 1" "rk \<or> hasNInputShapes ctx 2"
    "getAttributeProto ctx ''auto_pad'' = None" "2 \<le> length (getInputShape ctx 0)"
    and mis: "(ud \<and> length_mismatch ctx ''dilations'' (spatial_rank ctx)) \<or>
     (getAttribute ctx ''group'' 1 = 1 \<and>
      (length_mismatch ctx ''pads'' (2 * spatial_rank ctx) \<or>
       length_mismatch ctx ''strides'' (spatial_rank ctx) \<or>
       length_mismatch ctx ''kernel_shape'' (spatial_rank ctx)))"
  shows "is_inference_error (fst (convPoolTypeAndShapeInference ctx ud rk)) \<and>
         snd (convPoolTypeAndShapeInference ctx ud rk) = propagateElemTypeFromInputToOutput ctx 0 0"
proof -
  let ?n = "length (getInputShape ctx 0) - 2"
  let ?c = "propagateElemTypeFromInputToOutput ctx 0 0"
  let ?D = "(if ud
             then (case getRepeatedAttribute ctx ''dilations'' of
                     Some ds \<Rightarrow>
                       (if length ds \<noteq> ?n
                        then Inl (InferenceError ''Attribute dilations has incorrect size'')
                        else Inr ds)
                   | None \<Rightarrow> Inr (replicate ?n 1))
             else Inr (replicate ?n 1))"
  let ?P = "(case getRepeatedAttribute ctx ''pads'' of
               Some ps \<Rightarrow>
                 (if length ps \<noteq> ?n * 2
                  then Inl (InferenceError ''Attribute pads has incorrect size'')
                  else Inr ps)
             | None \<Rightarrow> Inr (replicate (?n * 2) 0))"
  let ?S = "(case getRepeatedAttribute ctx ''strides'' of
               Some ss \<Rightarrow>
                 (if length ss \<noteq> ?n
                  then Inl (InferenceError ''Attribute strides has incorrect size'')
                  else Inr ss)
             | None \<Rightarrow> Inr (replicate ?n 1))"
  let ?K = "(case getRepeatedAttribute ctx ''kernel_shape'' of
               Some ks \<Rightarrow>
                 (if length ks \<noteq> ?n
                  then Inl (InferenceError ''Attribute kernel_shape has incorrect size'')
                  else Inr ks)
             | None \<Rightarrow>
                 (if rk
                  then Inl (InferenceError ''Attribute kernel_shape must be specified'')
                  else (case kernel_shape_from_dims (drop 2 (getInputShape ctx 1)) [] of
                          None \<Rightarrow> Inl Returned
                        | Some ks \<Rightarrow> Inr ks)))"
  have D: "(ud \<and> length_mismatch ctx ''dilations'' (spatial_rank ctx) \<and>
            ?D = Inl (InferenceError ''Attribute dilations has incorrect size'')) \<or>
           (\<not> (ud \<and> length_mismatch ctx ''dilations'' (spatial_rank ctx)) \<and> (\<exists>d. ?D = Inr d))"
    by (simp add: length_mismatch_def spatial_rank_def split: option.splits)
  have P: "(length_mismatch ctx ''pads'' (2 * spatial_rank ctx) \<and>
            ?P = Inl (InferenceError ''Attribute pads has incorrect size'')) \<or>
           (\<not> length_mismatch ctx ''pads'' (2 * spatial_rank ctx) \<and> (\<exists>p. ?P = Inr p))"
    by (simp add: length_mismatch_def spatial_rank_def mult.commute split: option.splits)
  have S: "(length_mismatch ctx ''strides'' (spatial_rank ctx) \<and>
            ?S = Inl (InferenceError ''Attribute strides has incorrect size'')) \<or>
           (\<not> length_mismatch ctx ''strides'' (spatial_rank ctx) \<and> (\<exists>s. ?S = Inr s))"
    by (simp add: length_mismatch_def spatial_rank_def split: option.splits)
  have K: "length_mismatch ctx ''kernel_shape'' (spatial_rank ctx) \<Longrightarrow>
            ?K = Inl (InferenceError ''Attribute kernel_shape has incorrect size'')"
    by (cases "getRepeatedAttribute ctx ''kernel_shape''")
       (simp_all add: length_mismatch_def spatial_rank_def)
  have r1: "(\<not> hasNInputShapes ctx 1) = False" "(\<not> rk \<and> \<not> hasNInputShapes ctx 2) = False"
    "(getAttributeProto ctx ''auto_pad'' \<noteq> None) = False"
    "(length (getInputShape ctx 0) < 2) = False"
    using reach by auto
  have e1: "convPoolTypeAndShapeInference ctx ud rk = (e, ?c)" if "?D = Inl e" for e
    unfolding convPoolTypeAndShapeInference_def Let_def propagate_simps r1 if_False
    using that by (simp only: sum.case)
  have e2: "convPoolTypeAndShapeInference ctx ud rk = (e, ?c)"
    if "?D = Inr d" "?P = Inl e" "(getAttribute ctx ''group'' 1 \<noteq> 1) = False" for d e
    unfolding convPoolTypeAndShapeInference_def Let_def propagate_simps r1 if_False
    using that by (simp only: sum.case if_False)
  have e3: "convPoolTypeAndShapeInference ctx ud rk = (e, ?c)"
    if "?D = Inr d" "?P = Inr p" "?S = Inl e" "(getAttribute ctx ''group'' 1 \<noteq> 1) = False"
    for d p e
    unfolding convPoolTypeAndShapeInference_def Let_def propagate_simps r1 if_False
    using that by (simp only: sum.case if_False)
  have e4: "convPoolTypeAndShapeInference ctx ud rk = (e, ?c)"
    if "?D = Inr d" "?P = Inr p" "?S = Inr s" "?K = Inl e"
      "(getAttribute ctx ''group'' 1 \<noteq> 1) = False" for d p s e
    unfolding convPoolTypeAndShapeInference_def Let_def propagate_simps r1 if_False
    using that by (simp only: sum.case if_False)
  from D show ?thesis
  proof (elim disjE conjE exE)
    assume "?D = Inl (InferenceError ''Attribute dilations has incorrect size'')"
    from e1 [OF this] show ?thesis by (simp add: is_inference_error_def)
  next
    fix d assume d: "?D = Inr d" and nd: "\<not> (ud \<and> length_mismatch ctx ''dilations'' (spatial_rank ctx))"
    from mis nd have grp: "(getAttribute ctx ''group'' 1 \<noteq> 1) = False"
      and mis': "length_mismatch ctx ''pads'' (2 * spatial_rank ctx) \<or>
        length_mismatch ctx ''strides'' (spatial_rank ctx) \<or>
        length_mismatch ctx ''kernel_shape'' (spatial_rank ctx)"
      by blast+
    from P show ?thesis
    proof (elim disjE conjE exE)
      assume "?P = Inl (InferenceError ''Attribute pads has incorrect size'')"
      from e2 [OF d this grp] show ?thesis by (simp add: is_inference_error_def)
    next
      fix p assume p: "?P = Inr p" and np: "\<not> length_mismatch ctx ''pads'' (2 * spatial_rank ctx)"
      from S show ?thesis
      proof (elim disjE conjE exE)
        assume "?S = Inl (InferenceError ''Attribute strides has incorrect size'')"
        from e3 [OF d p this grp] show ?thesis by (simp add: is_inference_error_def)
      next
        fix s assume s: "?S = Inr s" and ns: "\<not> length_mismatch ctx ''strides'' (spatial_rank ctx)"
        from mis' np ns have "length_mismatch ctx ''kernel_shape'' (spatial_rank ctx)" by blast
        from e4 [OF d p s K [OF this] grp] show ?thesis
          by (simp add: is_inference_error_def)
      qed
    qed
  qed
qed


text \<open>
  Claim C2, as amended. For Conv and the pooling operators, once inference has the
  input shapes it needs, with a first input of rank at least 2 and no auto\_pad: a
  dilations attribute (Conv only) whose length is not the spatial rank is a hard
  failure, and with group 1 so is a pads attribute whose length is not twice the spatial
  rank and a strides or kernel\_shape attribute whose length is not the spatial rank; the
  output shape is left as it was. For ConvTranspose a pads, strides or kernel\_shape
  attribute of a mismatching length makes inference return without an error and
  without an output shape.
\<close>

theorem malformed_attribute_length:
  "(hasNInputShapes ctx 1 \<and> (rk \<or> hasNInputShapes ctx 2) \<and>
    getAttributeProto ctx ''auto_pad'' = None \<and> 2 \<le> length (getInputShape ctx 0) \<and>
    ((ud \<and> length_mismatch ctx ''dilations'' (spatial_rank ctx)) \<or>
     (getAttribute ctx ''group'' 1 = 1 \<and>
      (length_mismatch ctx ''pads'' (2 * spatial_rank ctx) \<or>
       length_mismatch ctx ''strides'' (spatial_rank ctx) \<or>
       length_mismatch ctx ''kernel_shape'' (spatial_rank ctx))))
    \<longrightarrow>
      is_inference_error (fst (convPoolTypeAndShapeInference ctx ud rk)) \<and>
      shape (output_type (snd (convPoolTypeAndShapeInference ctx ud rk))) =
        shape (output_type ctx)) \<and>
   (length_mismatch ctx ''pads'' (2 * spatial_rank ctx) \<or>
    length_mismatch ctx ''strides'' (spatial_rank ctx) \<or>
    length_mismatch ctx ''kernel_shape'' (spatial_rank ctx)
    \<longrightarrow>
      fst (convTransposeShapeInference ctx) = Returned \<and>
      shape (output_type (snd (convTransposeShapeInference ctx))) = shape (output_type ctx))"
proof (intro conjI impI)
  assume a: "hasNInputShapes ctx 1 \<and> (rk \<or> hasNInputShapes ctx 2) \<and>
    getAttributeProto ctx ''auto_pad'' = None \<and> 2 \<le> length (getInputShape ctx 0) \<and>
    ((ud \<and> length_mismatch ctx ''dilations'' (spatial_rank ctx)) \<or>
     (getAttribute ctx ''group'' 1 = 1 \<and>
      (length_mismatch ctx ''pads'' (2 * spatial_rank ctx) \<or>
       length_mismatch ctx ''strides'' (spatial_rank ctx) \<or>
       length_mismatch ctx ''kernel_shape'' (spatial_rank ctx))))"
  then have r: "hasNInputShapes ctx 1" "rk \<or> hasNInputShapes ctx 2"
    "getAttributeProto ctx ''auto_pad'' = None" "2 \<le> length (getInputShape ctx 0)"
    and m: "(ud \<and> length_mismatch ctx ''dilations'' (spatial_rank ctx)) \<or>
     (getAttribute ctx ''group'' 1 = 1 \<and>
      (length_mismatch ctx ''pads'' (2 * spatial_rank ctx) \<or>
       length_mismatch ctx ''strides'' (spatial_rank ctx) \<or>
       length_mismatch ctx ''kernel_shape'' (spatial_rank ctx)))"
    by blast+
  from convPool_mismatch [OF r m]
  show "is_inference_error (fst (convPoolTypeAndShapeInference ctx ud rk))"
    and "shape (output_type (snd (convPoolTypeAndShapeInference ctx ud rk))) =
        shape (output_type ctx)"
    by (simp_all add: propagate_simps)
next
  assume "length_mismatch ctx ''pads'' (2 * spatial_rank ctx) \<or>
    length_mismatch ctx ''strides'' (spatial_rank ctx) \<or>
    length_mismatch ctx ''kernel_shape'' (spatial_rank ctx)"
  from convTranspose_mismatch [OF this]
  show "fst (convTransposeShapeInference ctx) = Returned"
    and "shape (output_type (snd (convTransposeShapeInference ctx))) = shape (output_type ctx)"
    by (simp_all add: propagate_simps)
qed

text \<open>
  A pads attribute with 3 entries on a 4x4 image is a hard failure of a pooling, and
  makes a transposed convolution return without a shape.
\<close>

theorem malformed_attribute_length_witness:
  "length_mismatch ex_pool_bad_pads ''pads'' (2 * spatial_rank ex_pool_bad_pads) \<and>
   is_inference_error (fst (MaxPool_inference ex_pool_bad_pads)) \<and>
   shape (output_type (snd (MaxPool_inference ex_pool_bad_pads))) = None \<and>
   length_mismatch ex_conv_transpose_bad_pads ''pads''
     (2 * spatial_rank ex_conv_transpose_bad_pads) \<and>
   fst (convTransposeShapeInference ex_conv_transpose_bad_pads) = Returned \<and>
   shape (output_type (snd (convTransposeShapeInference ex_conv_transpose_bad_pads))) = None"
proof -
  have m': "length_mismatch ex_conv_transpose_bad_pads ''pads''
     (2 * spatial_rank ex_conv_transpose_bad_pads)"
    and out': "shape (output_type ex_conv_transpose_bad_pads) = None"
    by code_simp+
  from m' have h': "length_mismatch ex_conv_transpose_bad_pads ''pads''
      (2 * spatial_rank ex_conv_transpose_bad_pads) \<or>
    length_mismatch ex_conv_transpose_bad_pads ''strides''
      (spatial_rank ex_conv_transpose_bad_pads) \<or>
    length_mismatch ex_conv_transpose_bad_pads ''kernel_shape''
      (spatial_rank ex_conv_transpose_bad_pads)"
    by simp
  have m: "length_mismatch ex_pool_bad_pads ''pads'' (2 * spatial_rank ex_pool_bad_pads)"
    by code_simp
  have h: "hasNInputShapes ex_pool_bad_pads 1 \<and> (True \<or> hasNInputShapes ex_pool_bad_pads 2) \<and>
    getAttributeProto ex_pool_bad_pads ''auto_pad'' = None \<and>
    2 \<le> length (getInputShape ex_pool_bad_pads 0) \<and>
    ((False \<and> length_mismatch ex_pool_bad_pads ''dilations'' (spatial_rank ex_pool_bad_pads)) \<or>
     (getAttribute ex_pool_bad_pads ''group'' 1 = 1 \<and>
      (length_mismatch ex_pool_bad_pads ''pads'' (2 * spatial_rank ex_pool_bad_pads) \<or>
       length_mismatch ex_pool_bad_pads ''strides'' (spatial_rank ex_pool_bad_pads) \<or>
       length_mismatch ex_pool_bad_pads ''kernel_shape'' (spatial_rank ex_pool_bad_pads))))"
    by code_simp
  have out: "shape (output_type ex_pool_bad_pads) = None"
    by code_simp
  from malformed_attribute_length [THEN conjunct1, THEN mp, OF h]
    malformed_attribute_length [THEN conjunct2, THEN mp, OF h'] m out m' out'
  show ?thesis by (simp add: MaxPool_inference_def)
qed

text \<open>
  The claim as stated fails for ConvTranspose: with a pads attribute of 3 entries on a
  4x4 image its inference returns without an error.
\<close>

theorem malformed_attribute_length_counterexample:
  "length_mismatch ex_conv_transpose_bad_pads ''pads''
     (2 * spatial_rank ex_conv_transpose_bad_pads) \<and>
   fst (ConvTranspose_inference ex_conv_transpose_bad_pads) = Returned \<and>
   \<not> is_inference_error (fst (ConvTranspose_inference ex_conv_transpose_bad_pads))"
  by code_simp

text \<open>
  Claim C3, as amended. For a convolution or pooling node whose group attribute is
  present and not 1, inference writes no output shape dimension, and it returns
  without an error unless a check that comes before the group check fails: with the
  input shapes known and no auto\_pad, a first input of rank below 2 and, for Conv, a
  dilations attribute whose length is not the spatial rank are hard failures.
  ConvTranspose with such a group attribute always returns without an error and
  without an output shape.
\<close>

theorem group_not_one_skips:
  assumes "getAttributeProto ctx ''group'' = Some (AttrInt g)" and "g \<noteq> 1"
  shows "shape (output_type (snd (convPoolTypeAndShapeInference ctx ud rk))) =
           shape (output_type ctx) \<and>
         fst (convPoolTypeAndShapeInference ctx ud rk) =
           (if hasNInputShapes ctx 1 \<and> (rk \<or> hasNInputShapes ctx 2) \<and>
               getAttributeProto ctx ''auto_pad'' = None
            then if length (getInputShape ctx 0) < 2
                 then InferenceError ''Input tensor must have atleast 2 dimensions''
                 else if ud \<and> length_mismatch ctx ''dilations'' (spatial_rank ctx)
                 then InferenceError ''Attribute dilations has incorrect size''
                 else Returned
            else Returned) \<and>
         fst (convTransposeShapeInference ctx) = Returned \<and>
         shape (output_type (snd (convTransposeShapeInference ctx))) = shape (output_type ctx)"
proof -
  have g: "getAttribute ctx ''group'' 1 \<noteq> 1"
    using assms by (simp add: getAttribute_def)
  then have "getAttributeProto ctx ''auto_pad'' \<noteq> None \<or>
    getRepeatedAttribute ctx ''dilations'' \<noteq> None \<or> getAttribute ctx ''group'' 1 \<noteq> 1"
    by simp
  from convTranspose_early_exit [OF this] convPool_group [OF g, of ud rk]
  show ?thesis by (simp add: propagate_simps)
qed

text \<open>A convolution with two groups on known shapes returns and writes no shape.\<close>

theorem group_not_one_skips_witness:
  "getAttributeProto ex_conv_two_groups ''group'' = Some (AttrInt 2) \<and>
   fst (Conv_inference ex_conv_two_groups) = Returned \<and>
   shape (output_type (snd (Conv_inference ex_conv_two_groups))) = None \<and>
   fst (ConvTranspose_inference ex_conv_two_groups) = Returned \<and>
   shape (output_type (snd (ConvTranspose_inference ex_conv_two_groups))) = None"
proof -
  have g: "getAttributeProto ex_conv_two_groups ''group'' = Some (AttrInt 2)" "(2::int) \<noteq> 1"
    by code_simp+
  have c: "hasNInputShapes ex_conv_two_groups 1" "hasNInputShapes ex_conv_two_groups 2"
    "getAttributeProto ex_conv_two_groups ''auto_pad'' = None"
    "\<not> length (getInputShape ex_conv_two_groups 0) < 2"
    "\<not> length_mismatch ex_conv_two_groups ''dilations'' (spatial_rank ex_conv_two_groups)"
    "shape (output_type ex_conv_two_groups) = None"
    by code_simp+
  from group_not_one_skips [OF g, of True False] g(1) c
  show ?thesis by (simp add: Conv_inference_def ConvTranspose_inference_def)
qed

text \<open>
  The claim as stated fails where an earlier check fails: a convolution with two
  groups and a dilations attribute of one entry on a 5x5 image is a hard failure.
\<close>

theorem group_not_one_skips_counterexample:
  "getAttributeProto ex_conv_two_groups_bad_dilations ''group'' = Some (AttrInt 2) \<and>
   fst (Conv_inference ex_conv_two_groups_bad_dilations) =
     InferenceError ''Attribute dilations has incorrect size''"
  by code_simp

subsection \<open>Region-of-interest pooling\<close>

text \<open>
  Claim C8, as amended. For MaxRoiPool with both input shapes known: a first input of
  rank below 2, a second input whose rank is not 2, an absent \<open>pooled_shape\<close>
  attribute, and a \<open>pooled_shape\<close> whose length is not the rank of the first input
  minus 2 are hard failures that leave the output shape as it was. When the first input
  has rank 4 and \<open>pooled_shape\<close> has length 2, inference returns and the output shape
  is the leading dimension of the second input, the second dimension of the first
  input (both copied as they are, known or not) and the two attribute values.
\<close>

theorem roiPool_output_shape:
  assumes "hasNInputShapes ctx 2" and "sh = getInputShape ctx 0" and "rois = getInputShape ctx 1"
  shows "(length sh < 2 \<or> length rois \<noteq> 2 \<or>
          getRepeatedAttribute ctx ''pooled_shape'' = None \<or>
          length_mismatch ctx ''pooled_shape'' (length sh - 2)
          \<longrightarrow>
            is_inference_error (fst (roiPoolTypeShapeInference ctx)) \<and>
            shape (output_type (snd (roiPoolTypeShapeInference ctx))) = shape (output_type ctx)) \<and>
         (length sh = 4 \<and> length rois = 2 \<and>
          getRepeatedAttribute ctx ''pooled_shape'' = Some ps \<and> length ps = 2
          \<longrightarrow>
            fst (roiPoolTypeShapeInference ctx) = Returned \<and>
            shape (output_type (snd (roiPoolTypeShapeInference ctx))) =
              Some (output_dims ctx @
                    [rois ! 0, sh ! 1, DimValue (ps ! 0), DimValue (ps ! 1)]))"
  using assms
  by (auto simp add: roiPoolTypeShapeInference_def Let_def propagate_simps
      is_inference_error_def length_mismatch_def shape_set_output_dims
      split: option.splits)

text \<open>
  With a symbolic number of regions and of channels the output is (R, C, 2, 2);
  without the attribute the same inputs are a hard failure.
\<close>

theorem roiPool_output_shape_witness:
  "fst (MaxRoiPool_inference ex_roi_pool) = Returned \<and>
   shape (output_type (snd (MaxRoiPool_inference ex_roi_pool))) =
     Some [DimParam ''R'', DimParam ''C'', DimValue 2, DimValue 2] \<and>
   getRepeatedAttribute (ex_node [] (input_types ex_roi_pool)) ''pooled_shape'' = None \<and>
   is_inference_error (fst (MaxRoiPool_inference (ex_node [] (input_types ex_roi_pool))))"
proof -
  let ?sh = "[DimValue 1, DimParam ''C'', DimValue 5, DimValue 5]"
  let ?rois = "[DimParam ''R'', DimValue 5]"
  let ?bare = "ex_node [] (input_types ex_roi_pool)"
  have h: "hasNInputShapes ex_roi_pool 2" "?sh = getInputShape ex_roi_pool 0"
    "?rois = getInputShape ex_roi_pool 1"
    and h': "hasNInputShapes ?bare 2" "?sh = getInputShape ?bare 0"
    "?rois = getInputShape ?bare 1"
    by code_simp+
  have ok: "length ?sh = 4 \<and> length ?rois = 2 \<and>
    getRepeatedAttribute ex_roi_pool ''pooled_shape'' = Some [2, 2] \<and> length [2, 2 :: int] = 2"
    by code_simp
  have absent: "getRepeatedAttribute ?bare ''pooled_shape'' = None"
    by code_simp
  then have bad: "length ?sh < 2 \<or> length ?rois \<noteq> 2 \<or>
    getRepeatedAttribute ?bare ''pooled_shape'' = None \<or>
    length_mismatch ?bare ''pooled_shape'' (length ?sh - 2)"
    by simp
  have out: "output_dims ex_roi_pool = []" by code_simp
  from roiPool_output_shape [OF h, THEN conjunct2, THEN mp, OF ok]
    roiPool_output_shape [OF h', THEN conjunct1, THEN mp, OF bad] absent out
  show ?thesis by (simp add: MaxRoiPool_inference_def)
qed

text \<open>
  The claim as stated fails on a first input of rank 3: the inputs have ranks at least
  2 and exactly 2 and \<open>pooled_shape\<close> is present with length 2, yet inference fails,
  since the code asks for a length of rank - 2 = 1.
\<close>

theorem roiPool_output_shape_counterexample:
  "hasNInputShapes ex_roi_pool_rank3 2 \<and>
   length (getInputShape ex_roi_pool_rank3 0) = 3 \<and>
   length (getInputShape ex_roi_pool_rank3 1) = 2 \<and>
   getRepeatedAttribute ex_roi_pool_rank3 ''pooled_shape'' = Some [2, 2] \<and>
   fst (MaxRoiPool_inference ex_roi_pool_rank3) =
     InferenceError ''Attribute pooled_shape has incorrect length'' \<and>
   shape (output_type (snd (MaxRoiPool_inference ex_roi_pool_rank3))) = None"
  by code_simp

subsection \<open>Flatten\<close>

lemma foldl_multiply_dimension_NotSet:
  "foldl multiply_dimension DimNotSet ds = DimNotSet"
  by (induction ds) simp_all

lemma foldl_multiply_dimension:
  "foldl multiply_dimension (DimValue c) ds =
     (if list_all has_dim_value ds then DimValue (c * prod_list (map dim_value ds))
      else DimNotSet)"
proof (induction ds arbitrary: c)
  case Nil
  then show ?case by simp
next
  case (Cons d ds)
  then show ?case
    by (cases d) (simp_all add: foldl_multiply_dimension_NotSet mult.assoc)
qed

lemma multiplyDims_product:
  "multiplyDims sh a b = spec_product (take (b - a) (drop a sh))"
  by (simp add: multiplyDims_def spec_product_def foldl_multiply_dimension)

lemma static_cast_int_in_range:
  "- 2147483648 \<le> v \<Longrightarrow> v < 2147483648 \<Longrightarrow> static_cast_int v = v"
  by (simp add: static_cast_int_def)

text \<open>
  For an axis attribute within the range of \<open>int\<close>, an axis below 0 or above the rank
  is a hard failure, and otherwise the output has the two dimensions that are the
  products of the input dimensions before the axis and from the axis on, unknown as
  soon as a factor is unknown.
\<close>

lemma Flatten_inference_int_axis:
  assumes "hasInputShape ctx 0" and "sh = getInputShape ctx 0"
    and "axis = getAttribute ctx ''axis'' 1"
    and "- 2147483648 \<le> axis" and "axis < 2147483648"
  shows "(axis < 0 \<or> int (length sh) < axis \<longrightarrow>
            is_inference_error (fst (Flatten_inference ctx)) \<and>
            shape (output_type (snd (Flatten_inference ctx))) = shape (output_type ctx)) \<and>
         (0 \<le> axis \<and> axis \<le> int (length sh) \<longrightarrow>
            fst (Flatten_inference ctx) = Returned \<and>
            shape (output_type (snd (Flatten_inference ctx))) =
              Some (output_dims ctx @
                    [spec_product (take (nat axis) sh), spec_product (drop (nat axis) sh)]))"
  using assms
  by (auto simp add: Flatten_inference_def Let_def propagate_simps static_cast_int_in_range
      is_inference_error_def updateOutputShape_def shape_set_output_dims multiplyDims_product)

lemma Flatten_examples:
  "shape (output_type (snd (Flatten_inference (ex_flatten 0)))) = Some [DimValue 1, DimValue 24]"
  "shape (output_type (snd (Flatten_inference (ex_flatten 2)))) = Some [DimValue 6, DimValue 4]"
  "fst (Flatten_inference (ex_flatten 4)) = InferenceError ''Invalid value for attribute axis''"
  "fst (Flatten_inference (ex_flatten (- 1))) = InferenceError ''Invalid value for attribute axis''"
  by code_simp+

text \<open>
  Claim C6. The claim requires a hard failure whenever the axis attribute is above the
  rank. The code compares the attribute after \<open>static_cast<int>\<close>: the axis
  \<open>2^32 + 1\<close> becomes 1, passes the check on a tensor of rank 3, and inference
  returns with the shape (2, 12).
\<close>

theorem Flatten_wide_axis_not_rejected:
  "getAttribute ex_flatten_wide_axis ''axis'' 1 = 4294967297 \<and>
   length (getInputShape ex_flatten_wide_axis 0) = 3 \<and>
   fst (Flatten_inference ex_flatten_wide_axis) = Returned \<and>
   shape (output_type (snd (Flatten_inference ex_flatten_wide_axis))) =
     Some [DimValue 2, DimValue 12]"
  by code_simp

end
